theory Spec2Isabelle
  imports Main "HOL-Library.Multiset" "HOL-Library.AList" "HOL-Library.Sublist"
begin

section \<open>gomodifytype: selection of a line span and rewriting of struct field types\<close>

text \<open>
  A shallow embedding of \<^verbatim>\<open>main.go\<close>. Go strings are byte strings (\<open>string\<close>), Go's
  \<^verbatim>\<open>int\<close> is a 64-bit integer (values as \<open>int\<close>, the range check of \<^verbatim>\<open>strconv\<close> written
  out), errors are values of the datatype \<open>error\<close>, and a function that returns
  \<^verbatim>\<open>(int, int, error)\<close> returns \<open>error + int \<times> int\<close>.
\<close>

subsection \<open>Library: \<^verbatim>\<open>strings.Split\<close> and \<^verbatim>\<open>strconv.Atoi\<close>\<close>

text \<open>
  \<^verbatim>\<open>strings.Split(s, sep)\<close> for a separator of one byte (the only call passes \<^verbatim>\<open>","\<close>):
  the pieces between the separators, \<open>n + 1\<close> of them for \<open>n\<close> separators, never an
  empty slice.
\<close>

fun Split :: "string \<Rightarrow> char \<Rightarrow> string list" where
  "Split [] sep = [[]]"
| "Split (x # xs) sep =
     (if x = sep then [] # Split xs sep
      else (case Split xs sep of [] \<Rightarrow> [[x]] | p # ps \<Rightarrow> (x # p) # ps))"

datatype numErr = ErrSyntax | ErrRange

definition isDigit :: "char \<Rightarrow> bool" where
  "isDigit ch = (48 \<le> (of_char ch :: nat) \<and> (of_char ch :: nat) \<le> 57)"

definition maxUint64 :: nat where
  "maxUint64 = 2 ^ 64 - 1"

text \<open>
  The digit loop of \<^verbatim>\<open>strconv.ParseUint(s, 10, 64)\<close>: a byte that is no digit is a
  syntax error; a value that leaves 64 bits is a range error, found at the digit that
  overflows (before any later byte is looked at).
\<close>

fun ParseUint_loop :: "nat \<Rightarrow> string \<Rightarrow> numErr + nat" where
  "ParseUint_loop n [] = Inr n"
| "ParseUint_loop n (ch # cs) =
     (if \<not> isDigit ch then Inl ErrSyntax
      else if n \<ge> maxUint64 div 10 + 1 then Inl ErrRange
      else if n * 10 + (of_char ch - 48) > maxUint64 then Inl ErrRange
      else ParseUint_loop (n * 10 + (of_char ch - 48)) cs)"

definition ParseUint :: "string \<Rightarrow> numErr + nat" where
  "ParseUint s = (if s = [] then Inl ErrSyntax else ParseUint_loop 0 s)"

text \<open>
  \<^verbatim>\<open>strconv.ParseInt(s, 10, 0)\<close> on a 64-bit platform: an optional sign, then
  \<^verbatim>\<open>ParseUint\<close>; a range error of \<^verbatim>\<open>ParseUint\<close> continues with the largest unsigned
  value, which the cutoff test rejects.
\<close>

definition ParseInt :: "string \<Rightarrow> numErr + int" where
  "ParseInt s =
     (case s of
        [] \<Rightarrow> Inl ErrSyntax
      | c0 # rest \<Rightarrow>
          (let neg = (c0 = CHR ''-'');
               s' = (if c0 = CHR ''+'' \<or> c0 = CHR ''-'' then rest else s)
           in case ParseUint s' of
                Inl ErrSyntax \<Rightarrow> Inl ErrSyntax
              | r \<Rightarrow>
                 (let un = (case r of Inr u \<Rightarrow> u | Inl _ \<Rightarrow> maxUint64)
                  in if \<not> neg \<and> un \<ge> 2 ^ 63 then Inl ErrRange
                     else if neg \<and> un > 2 ^ 63 then Inl ErrRange
                     else Inr (if neg then - int un else int un))))"

subsection \<open>Errors\<close>

text \<open>
  One constructor for each place where the program makes an error:
  \<^item> \<open>NumError s k\<close>: the \<^verbatim>\<open>*strconv.NumError\<close> of \<^verbatim>\<open>Atoi\<close> on \<open>s\<close>;
  \<^item> \<open>ErrWrongRange\<close>: "wrong range. start line cannot be larger than end line";
  \<^item> \<open>ErrStructNotExist\<close>: "struct name does not exist";
  \<^item> \<open>ErrNoFieldName st fd\<close>: "struct \<open>st\<close> doesn't have field name \<open>fd\<close>"
    (\<^verbatim>\<open>fmt.Errorf\<close> with both names quoted);
  \<^item> \<open>ErrNoSelection\<close>: "-line, -struct or -all is not passed";
  \<^item> \<open>ErrNoFile\<close>, \<open>ErrLineAndStruct\<close>, \<open>ErrFieldRequiresStruct\<close>: the other errors of
    \<^verbatim>\<open>validate\<close>;
  \<^item> \<open>ErrFormat\<close>: a failure of \<^verbatim>\<open>format.Node\<close>;
  \<^item> \<open>Panic\<close>: a run-time panic (index out of range, nil dereference).
\<close>

datatype error =
    NumError string numErr
  | ErrWrongRange
  | ErrStructNotExist
  | ErrNoFieldName string string
  | ErrNoSelection
  | ErrNoFile
  | ErrLineAndStruct
  | ErrFieldRequiresStruct
  | ErrFormat
  | Panic

text \<open>
  \<^verbatim>\<open>strconv.Atoi\<close>. Its fast path (fewer than 19 bytes) computes the same value as
  \<^verbatim>\<open>ParseInt\<close> and fails with a syntax error on the same strings, so one definition
  covers both paths.
\<close>

definition Atoi :: "string \<Rightarrow> error + int" where
  "Atoi s = (case ParseInt s of Inl k \<Rightarrow> Inl (NumError s k) | Inr n \<Rightarrow> Inr n)"

subsection \<open>Positions and the file set\<close>

text \<open>
  A \<^verbatim>\<open>token.Pos\<close> is an offset into the file set; \<^verbatim>\<open>token.NoPos\<close> is 0. The file set
  of a run holds the one parsed file: its base, its size and the table of the offsets at
  which its lines start (ascending, the first one 0). \<^verbatim>\<open>//line\<close> directives are not
  modelled.
\<close>

type_synonym pos = nat

definition NoPos :: pos where
  "NoPos = 0"

definition IsValid :: "pos \<Rightarrow> bool" where
  "IsValid p = (p \<noteq> NoPos)"

record fileSet =
  file_base :: nat
  file_size :: nat
  file_lines :: "nat list"

definition inFile :: "fileSet \<Rightarrow> pos \<Rightarrow> bool" where
  "inFile fs p = (file_base fs \<le> p \<and> p \<le> file_base fs + file_size fs)"

text \<open>
  \<^verbatim>\<open>fileSet.Position(p).Line\<close>: 0 for \<^verbatim>\<open>NoPos\<close> and for a position outside the file,
  otherwise one more than the index of the last line start at or before the offset.
\<close>

definition Position_Line :: "fileSet \<Rightarrow> pos \<Rightarrow> int" where
  "Position_Line fs p =
     (if p \<noteq> NoPos \<and> inFile fs p
      then int (length (filter (\<lambda>l. l \<le> p - file_base fs) (file_lines fs)))
      else 0)"

subsection \<open>The syntax tree\<close>

text \<open>
  The part of \<^verbatim>\<open>go/ast\<close> the program looks at. Every node keeps the positions that its
  \<^verbatim>\<open>Pos()\<close> and \<^verbatim>\<open>End()\<close> methods read. Comments and documentation groups hold no
  struct type and are left out.
\<close>

datatype ident = MkIdent (NamePos: pos) (Name: string)

datatype basicLit = MkBasicLit (ValuePos: pos) (Value: string)

datatype expr =
    Ident ident
  | BasicLit basicLit
  | StarExpr pos expr
  | ArrayType pos "expr option" expr
  | SelectorExpr expr ident
  | MapType pos expr expr
  | StructType pos fieldList
  | CompositeLit "expr option" pos "expr list" pos
and field = Field (Names: "ident list") (Type: expr) (Tag: "basicLit option")
and fieldList = FieldList (Opening: pos) (List: "field list") (Closing: pos)

text \<open>
  The arguments are, in the order of the struct fields of \<^verbatim>\<open>go/ast\<close>:
  \<open>StarExpr Star X\<close>, \<open>ArrayType Lbrack Len Elt\<close> (no length for a slice),
  \<open>SelectorExpr X Sel\<close>, \<open>MapType Map Key Value\<close>, \<open>StructType Struct Fields\<close> (the
  position of the keyword \<^verbatim>\<open>struct\<close>, then the field list with the positions of its
  braces), \<open>CompositeLit Type Lbrace Elts Rbrace\<close>. Function, interface and channel types
  and the other expressions are outside the model.

  A \<^verbatim>\<open>ValueSpec\<close> of the parser declares at least one name: its first name and the
  other names are kept apart, so that \<^verbatim>\<open>x.Names[0]\<close> is total. A \<^verbatim>\<open>TypeSpec\<close> of the
  parser always has a type. A \<open>FuncDecl\<close> holds its receiver, its name, the parameters
  and results of its \<^verbatim>\<open>FuncType\<close> and its body.
\<close>

datatype spec =
    TypeSpec ident expr
  | ValueSpec ident "ident list" "expr option" "expr list"

datatype decl =
    GenDecl "spec list"
  | FuncDecl "fieldList option" ident fieldList "fieldList option" "stmt list option"
and stmt =
    DeclStmt decl
  | ExprStmt expr
  | AssignStmt "expr list" "expr list"
  | ReturnStmt "expr list"

datatype astFile = File (Package: pos) (FileName: ident) (Decls: "decl list")

text \<open>
  An \<^verbatim>\<open>ast.Node\<close>, as a callback of \<^verbatim>\<open>ast.Inspect\<close> receives it: an expression, a
  field, a spec, or a node of another class (an identifier, a field list, a declaration,
  a statement, the file).
\<close>

datatype node =
    ExprNode expr
  | FieldNode field
  | SpecNode spec
  | OtherNode

subsection \<open>Configuration\<close>

text \<open>
  The struct \<^verbatim>\<open>config\<close>. Its fields carry the prefix \<open>cfg_\<close>, since several of
  their names (\<^verbatim>\<open>file\<close>, \<^verbatim>\<open>write\<close>, \<^verbatim>\<open>end\<close>, \<^verbatim>\<open>from\<close>) are reserved words here and
  the others are the names of local variables of the program.
\<close>

record config =
  cfg_file :: string
  cfg_write :: bool
  cfg_structName :: string
  cfg_fieldName :: string
  cfg_line :: string
  cfg_start :: int
  cfg_end :: int
  cfg_all :: bool
  cfg_from :: string
  cfg_to :: string
  cfg_skipUnexportedFields :: bool
  cfg_fileSet :: fileSet

subsection \<open>Line selection\<close>

definition lineSelection :: "config \<Rightarrow> astFile \<Rightarrow> error + int \<times> int" where
  "lineSelection c node =
     (let parts = Split (cfg_line c) CHR '',''
      in case parts of
           [] \<Rightarrow> Inl Panic
         | p0 # _ \<Rightarrow>
            (case Atoi p0 of
               Inl err \<Rightarrow> Inl err
             | Inr start \<Rightarrow>
                (case (if length parts = 2 then Atoi (parts ! 1) else Inr start) of
                   Inl err \<Rightarrow> Inl err
                 | Inr end' \<Rightarrow>
                    if start > end' then Inl ErrWrongRange else Inr (start, end'))))"

subsection \<open>Library: the \<^verbatim>\<open>Pos\<close> and \<^verbatim>\<open>End\<close> methods of \<^verbatim>\<open>go/ast\<close>\<close>

fun expr_Pos :: "expr \<Rightarrow> pos"
  and field_Pos :: "field \<Rightarrow> pos" where
  "expr_Pos (Ident i) = NamePos i"
| "expr_Pos (BasicLit b) = ValuePos b"
| "expr_Pos (StarExpr star x) = star"
| "expr_Pos (ArrayType lbrack len elt) = lbrack"
| "expr_Pos (SelectorExpr x sel) = expr_Pos x"
| "expr_Pos (MapType m k v) = m"
| "expr_Pos (StructType struct fl) = struct"
| "expr_Pos (CompositeLit ty lbrace elts rbrace) =
     (case ty of Some t \<Rightarrow> expr_Pos t | None \<Rightarrow> lbrace)"
| "field_Pos (Field names ty tag) =
     (case names of n # _ \<Rightarrow> NamePos n | [] \<Rightarrow> expr_Pos ty)"

definition ident_End :: "ident \<Rightarrow> pos" where
  "ident_End i = NamePos i + length (Name i)"

definition basicLit_End :: "basicLit \<Rightarrow> pos" where
  "basicLit_End b = ValuePos b + length (Value b)"

function expr_End :: "expr \<Rightarrow> pos"
  and field_End :: "field \<Rightarrow> pos"
  and fieldList_End :: "fieldList \<Rightarrow> pos" where
  "expr_End (Ident i) = ident_End i"
| "expr_End (BasicLit b) = basicLit_End b"
| "expr_End (StarExpr star x) = expr_End x"
| "expr_End (ArrayType lbrack len elt) = expr_End elt"
| "expr_End (SelectorExpr x sel) = ident_End sel"
| "expr_End (MapType m k v) = expr_End v"
| "expr_End (StructType struct fl) = fieldList_End fl"
| "expr_End (CompositeLit ty lbrace elts rbrace) = rbrace + 1"
| "field_End (Field names ty tag) =
     (case tag of Some b \<Rightarrow> basicLit_End b | None \<Rightarrow> expr_End ty)"
| "fieldList_End (FieldList opn l closing) =
     (if IsValid closing then closing + 1
      else if l \<noteq> [] then field_End (last l)
      else NoPos)"
  by pat_completeness auto
termination
proof (relation "measure (\<lambda>x. case x of Inl e \<Rightarrow> size e
                                | Inr (Inl f) \<Rightarrow> size f
                                | Inr (Inr fl) \<Rightarrow> size fl)")
  show "wf (measure (\<lambda>x. case x of Inl e \<Rightarrow> size e
                                | Inr (Inl f) \<Rightarrow> size f
                                | Inr (Inr fl) \<Rightarrow> size fl))"
    by simp
next
  fix opn :: pos and l :: "field list" and closing :: pos
  assume "l \<noteq> []"
  then have "last l \<in> set l"
    by simp
  then have "size (last l) \<le> size_list size l"
    by (simp add: size_list_estimation')
  then show "(Inr (Inl (last l)), Inr (Inr (FieldList opn l closing)))
      \<in> measure (\<lambda>x. case x of Inl e \<Rightarrow> size e
                                | Inr (Inl f) \<Rightarrow> size f
                                | Inr (Inr fl) \<Rightarrow> size fl)"
    by simp
qed simp_all

subsection \<open>Library: \<^verbatim>\<open>types.ExprString\<close>\<close>

text \<open>
  The textual form of an expression, as \<^verbatim>\<open>go/types\<close> writes it (Go 1.17 and later):
  a composite literal is shortened to its type and \<^verbatim>\<open>{}\<close>, with the three bytes of
  the character U+2026 between the braces when it has elements; field tags are not
  written.
\<close>

definition ellipsis :: string where
  "ellipsis = [char_of (226 :: nat), char_of (128 :: nat), char_of (166 :: nat)]"

fun writeIdentList :: "ident list \<Rightarrow> string" where
  "writeIdentList [] = []"
| "writeIdentList [x] = Name x"
| "writeIdentList (x # y # ys) = Name x @ '', '' @ writeIdentList (y # ys)"

function ExprString :: "expr \<Rightarrow> string"
  and writeField :: "field \<Rightarrow> string"
  and writeFieldList :: "field list \<Rightarrow> string \<Rightarrow> string" where
  "ExprString (Ident i) = Name i"
| "ExprString (BasicLit b) = Value b"
| "ExprString (StarExpr star x) = ''*'' @ ExprString x"
| "ExprString (ArrayType lbrack len elt) =
     ''['' @ (case len of Some l \<Rightarrow> ExprString l | None \<Rightarrow> []) @ '']'' @ ExprString elt"
| "ExprString (SelectorExpr x sel) = ExprString x @ ''.'' @ Name sel"
| "ExprString (MapType m k v) = ''map['' @ ExprString k @ '']'' @ ExprString v"
| "ExprString (StructType struct (FieldList opn l closing)) =
     ''struct{'' @ writeFieldList l ''; '' @ ''}''"
| "ExprString (CompositeLit ty lbrace elts rbrace) =
     (case ty of Some t \<Rightarrow> ExprString t | None \<Rightarrow> ''(ast: <nil>)'')
     @ ''{'' @ (if elts \<noteq> [] then ellipsis else []) @ ''}''"
| "writeField (Field names ty tag) =
     writeIdentList names @ (if names \<noteq> [] then '' '' else []) @ ExprString ty"
| "writeFieldList [] sep = []"
| "writeFieldList [f] sep = writeField f"
| "writeFieldList (f # g # fs) sep = writeField f @ sep @ writeFieldList (g # fs) sep"
  by pat_completeness auto
termination
  by (relation "measure (\<lambda>x. case x of Inl e \<Rightarrow> size e
                                | Inr (Inl f) \<Rightarrow> size f
                                | Inr (Inr (fs, sep)) \<Rightarrow> size_list size fs)") simp_all

subsection \<open>Library: the first rune of a string and \<^verbatim>\<open>unicode.IsUpper\<close>\<close>

text \<open>
  A \<^verbatim>\<open>range\<close> loop over a string decodes UTF-8; a byte sequence that is no encoding
  yields U+FFFD. \<open>DecodeRune\<close> is the first rune of a non-empty string. The table of
  upper-case letters of \<^verbatim>\<open>unicode.IsUpper\<close> is a parameter of the functions that use it,
  written \<open>U\<close>.
\<close>

type_synonym rune = nat

definition RuneError :: rune where
  "RuneError = 65533"

definition cont :: "char \<Rightarrow> bool" where
  "cont b = (128 \<le> (of_char b :: nat) \<and> (of_char b :: nat) \<le> 191)"

definition second_ok :: "nat \<Rightarrow> nat \<Rightarrow> bool" where
  "second_ok b0 b1 =
     (if b0 = 224 then 160 \<le> b1 \<and> b1 \<le> 191
      else if b0 = 237 then 128 \<le> b1 \<and> b1 \<le> 159
      else if b0 = 240 then 144 \<le> b1 \<and> b1 \<le> 191
      else if b0 = 244 then 128 \<le> b1 \<and> b1 \<le> 143
      else 128 \<le> b1 \<and> b1 \<le> 191)"

fun DecodeRune :: "string \<Rightarrow> rune" where
  "DecodeRune [] = RuneError"
| "DecodeRune (c0 # cs) =
     (let b0 = (of_char c0 :: nat) in
      if b0 < 128 then b0
      else if 194 \<le> b0 \<and> b0 \<le> 223 then
        (case cs of
           c1 # _ \<Rightarrow>
             if second_ok b0 (of_char c1) then (b0 mod 32) * 64 + (of_char c1 mod 64)
             else RuneError
         | _ \<Rightarrow> RuneError)
      else if 224 \<le> b0 \<and> b0 \<le> 239 then
        (case cs of
           c1 # c2 # _ \<Rightarrow>
             if second_ok b0 (of_char c1) \<and> cont c2
             then (b0 mod 16) * 4096 + (of_char c1 mod 64) * 64 + (of_char c2 mod 64)
             else RuneError
         | _ \<Rightarrow> RuneError)
      else if 240 \<le> b0 \<and> b0 \<le> 244 then
        (case cs of
           c1 # c2 # c3 # _ \<Rightarrow>
             if second_ok b0 (of_char c1) \<and> cont c2 \<and> cont c3
             then (b0 mod 8) * 262144 + (of_char c1 mod 64) * 4096
                  + (of_char c2 mod 64) * 64 + (of_char c3 mod 64)
             else RuneError
         | _ \<Rightarrow> RuneError)
      else RuneError)"

text \<open>
  The upper-case letters of Latin-1, as \<^verbatim>\<open>unicode.IsUpper\<close> answers for runes up to
  U+00FF: an instance of the parameter \<open>U\<close> for the examples.
\<close>

definition latin1_IsUpper :: "rune \<Rightarrow> bool" where
  "latin1_IsUpper r = ((65 \<le> r \<and> r \<le> 90) \<or> (192 \<le> r \<and> r \<le> 214) \<or> (216 \<le> r \<and> r \<le> 222))"

definition isPublicName :: "(rune \<Rightarrow> bool) \<Rightarrow> string \<Rightarrow> bool" where
  "isPublicName U name = (if name = [] then False else U (DecodeRune name))"

subsection \<open>Collecting the structs\<close>

fun deref :: "expr \<Rightarrow> expr" where
  "deref (StarExpr star x) = deref x"
| "deref (ArrayType lbrack len elt) = deref elt"
| "deref x = x"

text \<open>
  \<^verbatim>\<open>structType\<close>: a struct type node and its name. The Go map from positions to these
  is an association list with one entry for each key.
\<close>

datatype structType = MkStructType (st_name: string) (st_node: expr)

type_synonym structs = "(pos \<times> structType) list"

text \<open>
  The callback of \<^verbatim>\<open>collectStructs\<close>: the name and the type expression that the node
  gives (no expression for a node that is none of the four cases, or whose type is
  \<^verbatim>\<open>nil\<close>), then the entry for the struct type under that expression, if there is one.
\<close>

definition collectFunc :: "node \<Rightarrow> structs \<Rightarrow> structs" where
  "collectFunc n structs =
     (let (structName, t) =
        (case n of
           SpecNode (TypeSpec name ty) \<Rightarrow> (Name name, Some ty)
         | ExprNode (CompositeLit ty lbrace elts rbrace) \<Rightarrow> ([], ty)
         | SpecNode (ValueSpec name0 names ty vals) \<Rightarrow> (Name name0, ty)
         | FieldNode (Field names ty tag) \<Rightarrow>
             ((case names of n0 # _ \<Rightarrow> Name n0 | [] \<Rightarrow> []), Some ty)
         | _ \<Rightarrow> ([], None))
      in case map_option deref t of
           Some (StructType struct fl) \<Rightarrow>
             AList.update struct (MkStructType structName (StructType struct fl)) structs
         | _ \<Rightarrow> structs)"

text \<open>
  \<^verbatim>\<open>ast.Inspect\<close> with this callback, which always returns \<^verbatim>\<open>true\<close>: every node is
  given to the callback and then its children are walked, in the order of
  \<^verbatim>\<open>ast.Walk\<close>. The callback does nothing on a node of another class, so only
  expressions, fields and specs are given to it here. \<open>walkList\<close> and \<open>walkOpt\<close> walk
  a list of children in order and a child that may be \<^verbatim>\<open>nil\<close>.
\<close>

definition walkList :: "('s \<Rightarrow> 's) list \<Rightarrow> 's \<Rightarrow> 's" where
  "walkList ws m = fold (\<lambda>w. w) ws m"

definition walkOpt :: "('s \<Rightarrow> 's) option \<Rightarrow> 's \<Rightarrow> 's" where
  "walkOpt w m = (case w of None \<Rightarrow> m | Some g \<Rightarrow> g m)"

primrec collect_expr :: "expr \<Rightarrow> structs \<Rightarrow> structs"
  and collect_field :: "field \<Rightarrow> structs \<Rightarrow> structs"
  and collect_fieldList :: "fieldList \<Rightarrow> structs \<Rightarrow> structs" where
  "collect_expr (Ident i) m = collectFunc (ExprNode (Ident i)) m"
| "collect_expr (BasicLit b) m = collectFunc (ExprNode (BasicLit b)) m"
| "collect_expr (StarExpr star x) m =
     collect_expr x (collectFunc (ExprNode (StarExpr star x)) m)"
| "collect_expr (ArrayType lbrack len elt) m =
     collect_expr elt (walkOpt (map_option collect_expr len)
       (collectFunc (ExprNode (ArrayType lbrack len elt)) m))"
| "collect_expr (SelectorExpr x sel) m =
     collect_expr x (collectFunc (ExprNode (SelectorExpr x sel)) m)"
| "collect_expr (MapType mp k v) m =
     collect_expr v (collect_expr k (collectFunc (ExprNode (MapType mp k v)) m))"
| "collect_expr (StructType struct fl) m =
     collect_fieldList fl (collectFunc (ExprNode (StructType struct fl)) m)"
| "collect_expr (CompositeLit ty lbrace elts rbrace) m =
     walkList (map collect_expr elts) (walkOpt (map_option collect_expr ty)
       (collectFunc (ExprNode (CompositeLit ty lbrace elts rbrace)) m))"
| "collect_field (Field names ty tag) m =
     collect_expr ty (collectFunc (FieldNode (Field names ty tag)) m)"
| "collect_fieldList (FieldList opn l closing) m = walkList (map collect_field l) m"

primrec collect_spec :: "spec \<Rightarrow> structs \<Rightarrow> structs" where
  "collect_spec (TypeSpec name ty) m =
     collect_expr ty (collectFunc (SpecNode (TypeSpec name ty)) m)"
| "collect_spec (ValueSpec name0 names ty vals) m =
     walkList (map collect_expr vals) (walkOpt (map_option collect_expr ty)
       (collectFunc (SpecNode (ValueSpec name0 names ty vals)) m))"

primrec collect_decl :: "decl \<Rightarrow> structs \<Rightarrow> structs"
  and collect_stmt :: "stmt \<Rightarrow> structs \<Rightarrow> structs" where
  "collect_decl (GenDecl specs) m = walkList (map collect_spec specs) m"
| "collect_decl (FuncDecl recv name params results body) m =
     walkOpt (map_option walkList (map_option (map collect_stmt) body))
       (walkOpt (map_option collect_fieldList results)
         (collect_fieldList params
           (walkOpt (map_option collect_fieldList recv) m)))"
| "collect_stmt (DeclStmt d) m = collect_decl d m"
| "collect_stmt (ExprStmt x) m = collect_expr x m"
| "collect_stmt (AssignStmt lhs rhs) m =
     walkList (map collect_expr rhs) (walkList (map collect_expr lhs) m)"
| "collect_stmt (ReturnStmt results) m = walkList (map collect_expr results) m"

definition collectStructs :: "astFile \<Rightarrow> structs" where
  "collectStructs node = walkList (map collect_decl (Decls node)) []"

subsection \<open>Struct, field and whole-file selection\<close>

definition fieldSelection :: "config \<Rightarrow> expr \<Rightarrow> error + int \<times> int" where
  "fieldSelection c st =
     (case st of
        StructType struct fl \<Rightarrow>
          (let encField =
                 fold (\<lambda>f enc.
                         fold (\<lambda>field enc'.
                                 if Name field = cfg_fieldName c then Some f else enc')
                           (Names f) enc)
                   (List fl) None
           in case encField of
                None \<Rightarrow> Inl (ErrNoFieldName (cfg_structName c) (cfg_fieldName c))
              | Some f \<Rightarrow>
                  Inr (Position_Line (cfg_fileSet c) (field_Pos f),
                       Position_Line (cfg_fileSet c) (field_End f)))
      | _ \<Rightarrow> Inl Panic)"

text \<open>
  The order in which a \<^verbatim>\<open>range\<close> loop visits the entries of a map is not specified by
  Go and differs from run to run. It is the parameter \<open>R\<close>: the loop of
  \<^verbatim>\<open>structSelection\<close> visits the entries of the map \<open>m\<close> in the order \<open>R m\<close>, which is
  some arrangement of the entries (\<open>mset (R m) = mset m\<close>).
\<close>

type_synonym rangeOrder = "structs \<Rightarrow> structs"

definition structSelection :: "rangeOrder \<Rightarrow> config \<Rightarrow> astFile \<Rightarrow> error + int \<times> int" where
  "structSelection R c node =
     (let structs = collectStructs node;
          encStruct =
            fold (\<lambda>(_, st) enc.
                    if st_name st = cfg_structName c then Some (st_node st) else enc)
              (R structs) None
      in case encStruct of
           None \<Rightarrow> Inl ErrStructNotExist
         | Some st \<Rightarrow>
             if cfg_fieldName c \<noteq> [] then fieldSelection c st
             else Inr (Position_Line (cfg_fileSet c) (expr_Pos st),
                       Position_Line (cfg_fileSet c) (expr_End st)))"

text \<open>
  \<^verbatim>\<open>allSelection\<close>: the file set has no file for a position that is \<^verbatim>\<open>NoPos\<close> or
  outside the file, and the call of \<^verbatim>\<open>LineCount\<close> on \<^verbatim>\<open>nil\<close> panics.
\<close>

definition allSelection :: "config \<Rightarrow> astFile \<Rightarrow> error + int \<times> int" where
  "allSelection c node =
     (if Package node \<noteq> NoPos \<and> inFile (cfg_fileSet c) (Package node)
      then Inr (1, int (length (file_lines (cfg_fileSet c))))
      else Inl Panic)"

definition findSelection :: "rangeOrder \<Rightarrow> config \<Rightarrow> astFile \<Rightarrow> error + int \<times> int" where
  "findSelection R c node =
     (if cfg_line c \<noteq> [] then lineSelection c node
      else if cfg_structName c \<noteq> [] then structSelection R c node
      else if cfg_all c then allSelection c node
      else Inl ErrNoSelection)"

subsection \<open>Rewriting\<close>

text \<open>\<^verbatim>\<open>ast.NewIdent\<close>: an identifier without a position.\<close>

definition NewIdent :: "string \<Rightarrow> expr" where
  "NewIdent name = Ident (MkIdent NoPos name)"

text \<open>
  The loop over the names of a field: the first name that passes, the empty string
  when none does.
\<close>

fun selectName :: "(rune \<Rightarrow> bool) \<Rightarrow> config \<Rightarrow> ident list \<Rightarrow> string" where
  "selectName U c [] = []"
| "selectName U c (field # rest) =
     (if \<not> cfg_skipUnexportedFields c \<or> isPublicName U (Name field) then Name field
      else selectName U c rest)"

text \<open>
  The name of a field, as the body of the loop of \<^verbatim>\<open>rewriteFunc\<close> finds it before it
  looks at the type: \<open>None\<close> when the loop continues with the next field at once (an
  anonymous field whose type is no identifier).
\<close>

definition fieldNameOf :: "(rune \<Rightarrow> bool) \<Rightarrow> config \<Rightarrow> field \<Rightarrow> string option" where
  "fieldNameOf U c f =
     (let fieldName = (if length (Names f) \<noteq> 0 then selectName U c (Names f) else [])
      in if Names f = [] then
           (case Type f of
              Ident ident \<Rightarrow>
                Some (if \<not> cfg_skipUnexportedFields c then Name ident else fieldName)
            | _ \<Rightarrow> None)
         else Some fieldName)"

text \<open>The body of the loop over the fields of a struct: the field after it.\<close>

definition rewriteField :: "(rune \<Rightarrow> bool) \<Rightarrow> config \<Rightarrow> int \<Rightarrow> int \<Rightarrow> field \<Rightarrow> field" where
  "rewriteField U c start end' f =
     (let line = Position_Line (cfg_fileSet c) (field_Pos f)
      in if \<not> (start \<le> line \<and> line \<le> end') then f
         else (case fieldNameOf U c f of
                 None \<Rightarrow> f
               | Some fieldName \<Rightarrow>
                   if fieldName = [] then f
                   else (let typeString = ExprString (Type f)
                         in if typeString = cfg_from c
                            then Field (Names f) (NewIdent (cfg_to c)) (Tag f)
                            else f)))"

text \<open>
  The callback \<^verbatim>\<open>rewriteFunc\<close>. It changes nothing but the fields of a struct type, so
  it is a function on expressions.
\<close>

definition rewriteFunc :: "(rune \<Rightarrow> bool) \<Rightarrow> config \<Rightarrow> int \<Rightarrow> int \<Rightarrow> expr \<Rightarrow> expr" where
  "rewriteFunc U c start end' n =
     (case n of
        StructType struct fl \<Rightarrow>
          StructType struct
            (FieldList (Opening fl) (map (rewriteField U c start end') (List fl)) (Closing fl))
      | _ \<Rightarrow> n)"

text \<open>
  \<^verbatim>\<open>ast.Inspect\<close> with \<^verbatim>\<open>rewriteFunc\<close>, which always returns \<^verbatim>\<open>true\<close>: the callback
  changes the node in place, then the children that the node has now are walked.
\<close>

function Inspect_expr :: "(rune \<Rightarrow> bool) \<Rightarrow> config \<Rightarrow> int \<Rightarrow> int \<Rightarrow> expr \<Rightarrow> expr" where
  "Inspect_expr U c start end' n =
     (case rewriteFunc U c start end' n of
        Ident i \<Rightarrow> Ident i
      | BasicLit b \<Rightarrow> BasicLit b
      | StarExpr star x \<Rightarrow> StarExpr star (Inspect_expr U c start end' x)
      | ArrayType lbrack len elt \<Rightarrow>
          ArrayType lbrack (map_option (Inspect_expr U c start end') len)
            (Inspect_expr U c start end' elt)
      | SelectorExpr x sel \<Rightarrow> SelectorExpr (Inspect_expr U c start end' x) sel
      | MapType mp k v \<Rightarrow>
          MapType mp (Inspect_expr U c start end' k) (Inspect_expr U c start end' v)
      | StructType struct fl \<Rightarrow>
          StructType struct
            (FieldList (Opening fl)
               (map (\<lambda>f. Field (Names f) (Inspect_expr U c start end' (Type f)) (Tag f))
                  (List fl))
               (Closing fl))
      | CompositeLit ty lbrace elts rbrace \<Rightarrow>
          CompositeLit (map_option (Inspect_expr U c start end') ty) lbrace
            (map (Inspect_expr U c start end') elts) rbrace)"
  by pat_completeness auto
termination
proof (relation "measure (\<lambda>(U, c, start, end', n). size n)", goal_cases)
  case 1
  show ?case by simp
next
  case (2 U c start end' n star x)
  then show ?case by (cases n) (auto simp: rewriteFunc_def)
next
  case (3 U c start end' n lbrack len elt z)
  then show ?case by (cases n) (auto simp: rewriteFunc_def)
next
  case (4 U c start end' n lbrack len elt)
  then show ?case by (cases n) (auto simp: rewriteFunc_def)
next
  case (5 U c start end' n x sel)
  then show ?case by (cases n) (auto simp: rewriteFunc_def)
next
  case (6 U c start end' n mp k v)
  then show ?case by (cases n) (auto simp: rewriteFunc_def)
next
  case (7 U c start end' n mp k v)
  then show ?case by (cases n) (auto simp: rewriteFunc_def)
next
  case (8 U c start end' n struct fl f)
  from 8 obtain s0 fl0 where n: "n = StructType s0 fl0"
    and fl: "fl = FieldList (Opening fl0) (map (rewriteField U c start end') (List fl0))
                    (Closing fl0)"
    by (cases n) (auto simp: rewriteFunc_def)
  from 8 fl obtain f0 where f0: "f0 \<in> set (List fl0)"
    and f: "f = rewriteField U c start end' f0"
    by auto
  have "size (Type f) \<le> size (Type f0)"
    unfolding f by (simp add: rewriteField_def NewIdent_def Let_def split: option.splits)
  also have "size (Type f0) < size f0"
    by (cases f0) simp
  also have "size f0 \<le> size_list size (List fl0)"
    using f0 by (simp add: size_list_estimation')
  also have "size_list size (List fl0) < size fl0"
    by (cases fl0) simp
  also have "size fl0 < size n"
    unfolding n by simp
  finally show ?case
    by simp
next
  case (9 U c start end' n ty lbrace elts rbrace z)
  then show ?case by (cases n) (auto simp: rewriteFunc_def)
next
  case (10 U c start end' n ty lbrace elts rbrace z)
  then have "size z \<le> size_list size elts"
    by (simp add: size_list_estimation')
  with 10 show ?case by (cases n) (auto simp: rewriteFunc_def)
qed

text \<open>
  The walk through the other classes of nodes, on which the callback does nothing: a
  field (of a parameter list), a field list, a spec, a declaration, a statement and
  the file.
\<close>

definition Inspect_field :: "(rune \<Rightarrow> bool) \<Rightarrow> config \<Rightarrow> int \<Rightarrow> int \<Rightarrow> field \<Rightarrow> field" where
  "Inspect_field U c start end' f =
     Field (Names f) (Inspect_expr U c start end' (Type f)) (Tag f)"

definition Inspect_fieldList ::
  "(rune \<Rightarrow> bool) \<Rightarrow> config \<Rightarrow> int \<Rightarrow> int \<Rightarrow> fieldList \<Rightarrow> fieldList" where
  "Inspect_fieldList U c start end' fl =
     FieldList (Opening fl) (map (Inspect_field U c start end') (List fl)) (Closing fl)"

primrec Inspect_spec :: "(rune \<Rightarrow> bool) \<Rightarrow> config \<Rightarrow> int \<Rightarrow> int \<Rightarrow> spec \<Rightarrow> spec" where
  "Inspect_spec U c start end' (TypeSpec name ty) =
     TypeSpec name (Inspect_expr U c start end' ty)"
| "Inspect_spec U c start end' (ValueSpec name0 names ty vals) =
     ValueSpec name0 names (map_option (Inspect_expr U c start end') ty)
       (map (Inspect_expr U c start end') vals)"

primrec Inspect_decl :: "(rune \<Rightarrow> bool) \<Rightarrow> config \<Rightarrow> int \<Rightarrow> int \<Rightarrow> decl \<Rightarrow> decl"
  and Inspect_stmt :: "(rune \<Rightarrow> bool) \<Rightarrow> config \<Rightarrow> int \<Rightarrow> int \<Rightarrow> stmt \<Rightarrow> stmt" where
  "Inspect_decl U c start end' (GenDecl specs) =
     GenDecl (map (Inspect_spec U c start end') specs)"
| "Inspect_decl U c start end' (FuncDecl recv name params results body) =
     FuncDecl (map_option (Inspect_fieldList U c start end') recv) name
       (Inspect_fieldList U c start end' params)
       (map_option (Inspect_fieldList U c start end') results)
       (map_option (map (Inspect_stmt U c start end')) body)"
| "Inspect_stmt U c start end' (DeclStmt d) = DeclStmt (Inspect_decl U c start end' d)"
| "Inspect_stmt U c start end' (ExprStmt x) = ExprStmt (Inspect_expr U c start end' x)"
| "Inspect_stmt U c start end' (AssignStmt lhs rhs) =
     AssignStmt (map (Inspect_expr U c start end') lhs) (map (Inspect_expr U c start end') rhs)"
| "Inspect_stmt U c start end' (ReturnStmt results) =
     ReturnStmt (map (Inspect_expr U c start end') results)"

definition Inspect_file :: "(rune \<Rightarrow> bool) \<Rightarrow> config \<Rightarrow> int \<Rightarrow> int \<Rightarrow> astFile \<Rightarrow> astFile" where
  "Inspect_file U c start end' node =
     File (Package node) (FileName node) (map (Inspect_decl U c start end') (Decls node))"

text \<open>
  \<^verbatim>\<open>rewrite\<close> returns the tree, changed in place, and keeps the span in the
  configuration. It never fails.
\<close>

definition rewrite ::
  "(rune \<Rightarrow> bool) \<Rightarrow> config \<Rightarrow> astFile \<Rightarrow> int \<Rightarrow> int \<Rightarrow> astFile \<times> config" where
  "rewrite U c node start end' =
     (Inspect_file U c start end' node, c\<lparr>cfg_start := start, cfg_end := end'\<rparr>)"

subsection \<open>Validation and the run\<close>

definition validate :: "config \<Rightarrow> error option" where
  "validate c =
     (if cfg_file c = [] then Some ErrNoFile
      else if cfg_line c = [] \<and> cfg_structName c = [] \<and> \<not> cfg_all c then Some ErrNoSelection
      else if cfg_line c \<noteq> [] \<and> cfg_structName c \<noteq> [] then Some ErrLineAndStruct
      else if cfg_fieldName c \<noteq> [] \<and> cfg_structName c = [] then Some ErrFieldRequiresStruct
      else None)"

text \<open>
  \<^verbatim>\<open>run\<close> from the validation on, for the tree \<open>node\<close> that \<^verbatim>\<open>cfg.parse()\<close> returns.
  The printer \<^verbatim>\<open>format.Node\<close> is the parameter \<open>F\<close>. The result is the tree as the run
  leaves it, and either the error or the formatted text (which \<^verbatim>\<open>run\<close> prints, or
  \<^verbatim>\<open>format\<close> writes to the file when \<^verbatim>\<open>-w\<close> is given).
\<close>

type_synonym printer = "fileSet \<Rightarrow> astFile \<Rightarrow> error + string"

definition format :: "printer \<Rightarrow> config \<Rightarrow> astFile \<Rightarrow> error + string" where
  "format F c node = F (cfg_fileSet c) node"

definition run ::
  "(rune \<Rightarrow> bool) \<Rightarrow> rangeOrder \<Rightarrow> printer \<Rightarrow> config \<Rightarrow> astFile \<Rightarrow> astFile \<times> (error + string)" where
  "run U R F cfg node =
     (case validate cfg of
        Some err \<Rightarrow> (node, Inl err)
      | None \<Rightarrow>
         (case findSelection R cfg node of
            Inl err \<Rightarrow> (node, Inl err)
          | Inr (start, end') \<Rightarrow>
             (let (rewrittenNode, cfg') = rewrite U cfg node start end'
              in (rewrittenNode, format F cfg' rewrittenNode))))"

subsection \<open>Matching fields and the fields of a file\<close>

text \<open>
  The three tests that the loop of \<^verbatim>\<open>rewriteFunc\<close> makes on a field before it replaces
  the type: the line of the field lies in the span, the name found for the field is
  not empty, and the text of the type is \<^verbatim>\<open>from\<close>.
\<close>

definition fieldMatches :: "(rune \<Rightarrow> bool) \<Rightarrow> config \<Rightarrow> int \<Rightarrow> int \<Rightarrow> field \<Rightarrow> bool" where
  "fieldMatches U c start end' f =
     (start \<le> Position_Line (cfg_fileSet c) (field_Pos f)
      \<and> Position_Line (cfg_fileSet c) (field_Pos f) \<le> end'
      \<and> (case fieldNameOf U c f of None \<Rightarrow> False | Some fieldName \<Rightarrow> fieldName \<noteq> [])
      \<and> ExprString (Type f) = cfg_from c)"

text \<open>
  The fields of all struct types under a node, those of nested struct types included.
  The fields of a parameter list are not fields of a struct; the struct types in their
  types are looked into.
\<close>

primrec structFields_expr :: "expr \<Rightarrow> field list"
  and structFields_field :: "field \<Rightarrow> field list"
  and structFields_fieldList :: "fieldList \<Rightarrow> field list" where
  "structFields_expr (Ident i) = []"
| "structFields_expr (BasicLit b) = []"
| "structFields_expr (StarExpr star x) = structFields_expr x"
| "structFields_expr (ArrayType lbrack len elt) =
     case_option [] (\<lambda>fs. fs) (map_option structFields_expr len) @ structFields_expr elt"
| "structFields_expr (SelectorExpr x sel) = structFields_expr x"
| "structFields_expr (MapType mp k v) = structFields_expr k @ structFields_expr v"
| "structFields_expr (StructType struct fl) = List fl @ structFields_fieldList fl"
| "structFields_expr (CompositeLit ty lbrace elts rbrace) =
     case_option [] (\<lambda>fs. fs) (map_option structFields_expr ty)
     @ concat (map structFields_expr elts)"
| "structFields_field (Field names ty tag) = structFields_expr ty"
| "structFields_fieldList (FieldList opn l closing) = concat (map structFields_field l)"










text \<open>
  A field is accounted for by the fields \<open>rs\<close> when it is one of them or lies inside
  the type expression of one of them that matches.
\<close>

definition covered :: "(rune \<Rightarrow> bool) \<Rightarrow> config \<Rightarrow> int \<Rightarrow> int \<Rightarrow> field list \<Rightarrow> field \<Rightarrow> bool" where
  "covered U c s e rs g =
     (g \<in> set rs \<or> (\<exists>m\<in>set rs. fieldMatches U c s e m \<and> g \<in> set (structFields_expr (Type m))))"

text \<open>Every node of the collection is a struct type.\<close>

definition structNodes :: "structs \<Rightarrow> bool" where
  "structNodes m = (\<forall>e\<in>set m. \<exists>struct fl. st_node (snd e) = StructType struct fl)"

subsection \<open>Example files\<close>

text \<open>
  The file \<^verbatim>\<open>a.go\<close>, parsed with base 1 (65 bytes, 7 lines):
  \<^verbatim>\<open>
  package p

  type foo struct {
  	bar string
  	qux, Baz int
  	string
  }
  \<close>
\<close>

definition fsA :: fileSet where
  "fsA = \<lparr>file_base = 1, file_size = 65, file_lines = [0, 10, 11, 29, 41, 55, 63]\<rparr>"

definition structA :: expr where
  "structA =
     StructType 21 (FieldList 28
       [Field [MkIdent 31 ''bar''] (Ident (MkIdent 35 ''string'')) None,
        Field [MkIdent 43 ''qux'', MkIdent 48 ''Baz''] (Ident (MkIdent 52 ''int'')) None,
        Field [] (Ident (MkIdent 57 ''string'')) None]
       64)"

definition fileA :: astFile where
  "fileA = File 1 (MkIdent 9 ''p'') [GenDecl [TypeSpec (MkIdent 17 ''foo'') structA]]"

definition cfgA :: config where
  "cfgA = \<lparr>cfg_file = ''a.go'', cfg_write = False, cfg_structName = ''foo'',
            cfg_fieldName = ''bar'', cfg_line = [], cfg_start = 0, cfg_end = 0,
            cfg_all = False, cfg_from = ''string'', cfg_to = ''[]byte'',
            cfg_skipUnexportedFields = False, cfg_fileSet = fsA\<rparr>"

text \<open>A configuration that selects the lines \<^verbatim>\<open>8,4\<close> and names no struct.\<close>

definition cfgL :: config where
  "cfgL = cfgA\<lparr>cfg_structName := [], cfg_fieldName := [], cfg_line := ''8,4''\<rparr>"




text \<open>
  The file \<^verbatim>\<open>b.go\<close> (43 bytes, 6 lines), in which the opening brace of the struct
  stands on the line after the keyword \<^verbatim>\<open>struct\<close> (the scanner puts no semicolon after
  a keyword):
  \<^verbatim>\<open>
  package p

  type foo struct
  {
  	bar string
  }
  \<close>
\<close>

definition fsB :: fileSet where
  "fsB = \<lparr>file_base = 1, file_size = 43, file_lines = [0, 10, 11, 27, 29, 41]\<rparr>"

definition fileB :: astFile where
  "fileB =
     File 1 (MkIdent 9 ''p'')
       [GenDecl [TypeSpec (MkIdent 17 ''foo'')
          (StructType 21 (FieldList 28
             [Field [MkIdent 31 ''bar''] (Ident (MkIdent 35 ''string'')) None]
             42))]]"

definition cfgB :: config where
  "cfgB = \<lparr>cfg_file = ''b.go'', cfg_write = False, cfg_structName = ''foo'',
            cfg_fieldName = [], cfg_line = [], cfg_start = 0, cfg_end = 0,
            cfg_all = False, cfg_from = ''string'', cfg_to = ''[]byte'',
            cfg_skipUnexportedFields = False, cfg_fileSet = fsB\<rparr>"

text \<open>
  The file \<^verbatim>\<open>c.go\<close> (56 bytes, 7 lines), in which two struct types get the name
  \<^verbatim>\<open>foo\<close>: the declared type, and the type of its field \<^verbatim>\<open>foo\<close>.
  \<^verbatim>\<open>
  package p

  type foo struct {
  	foo struct {
  		x int
  	}
  }
  \<close>
\<close>

definition fsC :: fileSet where
  "fsC = \<lparr>file_base = 1, file_size = 56, file_lines = [0, 10, 11, 29, 43, 51, 54]\<rparr>"

definition innerC :: expr where
  "innerC =
     StructType 35 (FieldList 42
       [Field [MkIdent 46 ''x''] (Ident (MkIdent 48 ''int'')) None] 53)"

definition outerC :: expr where
  "outerC = StructType 21 (FieldList 28 [Field [MkIdent 31 ''foo''] innerC None] 55)"

definition fileC :: astFile where
  "fileC = File 1 (MkIdent 9 ''p'') [GenDecl [TypeSpec (MkIdent 17 ''foo'') outerC]]"

definition cfgC :: config where
  "cfgC = \<lparr>cfg_file = ''c.go'', cfg_write = False, cfg_structName = ''foo'',
            cfg_fieldName = [], cfg_line = [], cfg_start = 0, cfg_end = 0,
            cfg_all = False, cfg_from = ''int'', cfg_to = ''int64'',
            cfg_skipUnexportedFields = False, cfg_fileSet = fsC\<rparr>"

section \<open>Properties\<close>

subsection \<open>Line selection\<close>

lemma Split_not_Nil: "Split s sep \<noteq> []"
  by (induction s) (auto split: list.splits)

lemma Split_no_sep: "sep \<notin> set s \<Longrightarrow> Split s sep = [s]"
  by (induction s) auto

lemma Split_append_sep: "sep \<notin> set a \<Longrightarrow> Split (a @ sep # b) sep = a # Split b sep"
  by (induction a) (auto split: list.splits)

lemma ParseUint_loop_digits: "ParseUint_loop n s = Inr v \<Longrightarrow> \<forall>ch\<in>set s. isDigit ch"
  by (induction n s rule: ParseUint_loop.induct) (auto split: if_splits)

lemma isDigit_comma: "\<not> isDigit CHR '',''"
  by (simp add: isDigit_def)

lemma ParseUint_no_comma: "ParseUint s = Inr v \<Longrightarrow> CHR '','' \<notin> set s"
  using ParseUint_loop_digits isDigit_comma
  by (fastforce simp: ParseUint_def split: if_splits)

lemma ParseInt_no_comma: "ParseInt s = Inr v \<Longrightarrow> CHR '','' \<notin> set s"
  by (auto simp: ParseInt_def Let_def maxUint64_def
      split: list.splits sum.splits numErr.splits if_splits dest: ParseUint_no_comma)

lemma Atoi_no_comma: "Atoi s = Inr v \<Longrightarrow> CHR '','' \<notin> set s"
  by (auto simp: Atoi_def split: sum.splits dest: ParseInt_no_comma)

lemma Atoi_error: "Atoi s = Inl e \<Longrightarrow> \<exists>k. e = NumError s k"
  by (auto simp: Atoi_def split: sum.splits)

lemmas Atoi_eval = Atoi_def ParseInt_def ParseUint_def isDigit_def maxUint64_def

lemma lineSelection_two:
  assumes "Split (cfg_line c) CHR '','' = [a, b]"
  shows "lineSelection c node =
    (case Atoi a of Inl err \<Rightarrow> Inl err
     | Inr N \<Rightarrow> (case Atoi b of Inl err \<Rightarrow> Inl err
         | Inr M \<Rightarrow> if N > M then Inl ErrWrongRange else Inr (N, M)))"
  using assms by (simp add: lineSelection_def Let_def split: sum.splits)

lemma lineSelection_other:
  assumes "Split (cfg_line c) CHR '','' = p0 # rest" and "length rest \<noteq> 1"
  shows "lineSelection c node = (case Atoi p0 of Inl err \<Rightarrow> Inl err | Inr N \<Rightarrow> Inr (N, N))"
  using assms by (simp add: lineSelection_def Let_def split: sum.splits)

text \<open>
  Claim C7. For a line string \<open>a,b\<close> whose two tokens are integers \<open>N \<le> M\<close> (as
  \<^verbatim>\<open>Atoi\<close> reads them), line selection returns exactly \<open>(N, M)\<close>; for a string that is
  one integer token \<open>N\<close> it returns \<open>(N, N)\<close>; and the result does not depend on the
  syntax tree.
\<close>

theorem lineSelection_valid:
  "(Atoi a = Inr N \<and> Atoi b = Inr M \<and> N \<le> M \<longrightarrow>
      lineSelection (c\<lparr>cfg_line := a @ '','' @ b\<rparr>) node = Inr (N, M))
   \<and> (Atoi a = Inr N \<longrightarrow> lineSelection (c\<lparr>cfg_line := a\<rparr>) node = Inr (N, N))
   \<and> lineSelection c node = lineSelection c node'"
proof (intro conjI impI)
  assume h: "Atoi a = Inr N \<and> Atoi b = Inr M \<and> N \<le> M"
  then have "CHR '','' \<notin> set a" and "CHR '','' \<notin> set b"
    by (auto dest: Atoi_no_comma)
  then have "Split (a @ '','' @ b) CHR '','' = [a, b]"
    by (simp add: Split_append_sep Split_no_sep)
  then have "Split (cfg_line (c\<lparr>cfg_line := a @ '','' @ b\<rparr>)) CHR '','' = [a, b]"
    by simp
  from lineSelection_two [OF this] h
  show "lineSelection (c\<lparr>cfg_line := a @ '','' @ b\<rparr>) node = Inr (N, M)"
    by simp
next
  assume h: "Atoi a = Inr N"
  then have "CHR '','' \<notin> set a"
    by (rule Atoi_no_comma)
  then have "Split (cfg_line (c\<lparr>cfg_line := a\<rparr>)) CHR '','' = a # []"
    by (simp add: Split_no_sep)
  from lineSelection_other [OF this] h
  show "lineSelection (c\<lparr>cfg_line := a\<rparr>) node = Inr (N, N)"
    by simp
next
  show "lineSelection c node = lineSelection c node'"
    by (simp add: lineSelection_def)
qed

theorem lineSelection_valid_witness:
  "lineSelection (cfgA\<lparr>cfg_line := ''4,8''\<rparr>) fileA = Inr (4, 8)
   \<and> lineSelection (cfgA\<lparr>cfg_line := ''4''\<rparr>) fileA = Inr (4, 4)"
proof -
  have a: "Atoi ''4'' = Inr 4" and b: "Atoi ''8'' = Inr 8"
    by (simp_all add: Atoi_eval)
  from a b lineSelection_valid [of "''4''" 4 "''8''" 8 cfgA fileA fileA]
  show ?thesis
    by simp
qed

text \<open>
  Claim C10. For a line string with more than two comma-separated tokens whose first
  token is an integer \<open>N\<close>, line selection does not fail: whatever the other tokens are,
  the result is \<open>(N, N)\<close>.
\<close>

theorem lineSelection_extra_tokens:
  assumes "length (Split (cfg_line c) CHR '','') > 2"
    and "Atoi (hd (Split (cfg_line c) CHR '','')) = Inr N"
  shows "lineSelection c node = Inr (N, N)"
proof -
  from assms(1) obtain p0 rest where sp: "Split (cfg_line c) CHR '','' = p0 # rest"
    and "length rest \<noteq> 1"
    by (cases "Split (cfg_line c) CHR '',''") auto
  from lineSelection_other [OF this] assms(2) sp show ?thesis
    by simp
qed

theorem lineSelection_extra_tokens_witness:
  "lineSelection (cfgA\<lparr>cfg_line := ''4,8,12''\<rparr>) fileA = Inr (4, 4)"
proof -
  have sp: "Split ''4,8,12'' CHR '','' = [''4'', ''8'', ''12'']"
    by simp
  have "Atoi ''4'' = Inr 4"
    by (simp add: Atoi_eval)
  with sp lineSelection_extra_tokens [of "cfgA\<lparr>cfg_line := ''4,8,12''\<rparr>" 4 fileA]
  show ?thesis
    by simp
qed

text \<open>
  Claim C6, as amended. When the line string has exactly two tokens that are integers
  \<open>N > M\<close>, line selection fails with the range error. When the first token is not an
  integer, or when the string has exactly two tokens and the second is not an integer,
  it fails with the \<^verbatim>\<open>NumError\<close> of \<^verbatim>\<open>Atoi\<close> for that token. The tree is neither read
  nor changed: the result is the same for every tree, and the run ends with the tree
  it was given and the error.
\<close>

theorem lineSelection_failures:
  "(Split (cfg_line c) CHR '','' = [a, b] \<and> Atoi a = Inr N \<and> Atoi b = Inr M \<and> N > M \<longrightarrow>
      lineSelection c node = Inl ErrWrongRange)
   \<and> (Atoi (hd (Split (cfg_line c) CHR '','')) = Inl err \<longrightarrow>
      lineSelection c node = Inl err
      \<and> (\<exists>k. err = NumError (hd (Split (cfg_line c) CHR '','')) k))
   \<and> (Split (cfg_line c) CHR '','' = [a, b] \<and> Atoi a = Inr N \<and> Atoi b = Inl err' \<longrightarrow>
      lineSelection c node = Inl err' \<and> (\<exists>k. err' = NumError b k))
   \<and> (cfg_line c \<noteq> [] \<and> validate c = None \<and> lineSelection c node = Inl err'' \<longrightarrow>
      run U R F c node = (node, Inl err''))
   \<and> lineSelection c node = lineSelection c node'"
proof (intro conjI impI)
  assume "Split (cfg_line c) CHR '','' = [a, b] \<and> Atoi a = Inr N \<and> Atoi b = Inr M \<and> N > M"
  then show "lineSelection c node = Inl ErrWrongRange"
    by (simp add: lineSelection_two)
next
  assume h: "Atoi (hd (Split (cfg_line c) CHR '','')) = Inl err"
  then show "lineSelection c node = Inl err"
    by (cases "Split (cfg_line c) CHR '',''") (simp_all add: Split_not_Nil lineSelection_def Let_def)
  from h show "\<exists>k. err = NumError (hd (Split (cfg_line c) CHR '','')) k"
    by (rule Atoi_error)
next
  assume h: "Split (cfg_line c) CHR '','' = [a, b] \<and> Atoi a = Inr N \<and> Atoi b = Inl err'"
  then show "lineSelection c node = Inl err'"
    by (simp add: lineSelection_two)
  from h show "\<exists>k. err' = NumError b k"
    by (auto dest: Atoi_error)
next
  assume "cfg_line c \<noteq> [] \<and> validate c = None \<and> lineSelection c node = Inl err''"
  then show "run U R F c node = (node, Inl err'')"
    by (simp add: run_def findSelection_def)
next
  show "lineSelection c node = lineSelection c node'"
    by (simp add: lineSelection_def)
qed

theorem lineSelection_failures_witness:
  "lineSelection (cfgA\<lparr>cfg_line := ''8,4''\<rparr>) fileA = Inl ErrWrongRange
   \<and> lineSelection (cfgA\<lparr>cfg_line := ''x''\<rparr>) fileA = Inl (NumError ''x'' ErrSyntax)
   \<and> lineSelection (cfgA\<lparr>cfg_line := ''4,x''\<rparr>) fileA = Inl (NumError ''x'' ErrSyntax)
   \<and> run latin1_IsUpper id (\<lambda>fs n. Inr []) cfgL fileA = (fileA, Inl ErrWrongRange)"
proof -
  have a4: "Atoi ''4'' = Inr 4" and a8: "Atoi ''8'' = Inr 8"
    and ax: "Atoi ''x'' = Inl (NumError ''x'' ErrSyntax)"
    by (simp_all add: Atoi_eval)
  have v: "validate cfgL = None" and l: "cfg_line cfgL = ''8,4''"
    by (simp_all add: validate_def cfgL_def cfgA_def)
  have 1: "lineSelection (cfgA\<lparr>cfg_line := ''8,4''\<rparr>) fileA = Inl ErrWrongRange"
    using lineSelection_failures [of "cfgA\<lparr>cfg_line := ''8,4''\<rparr>" "''8''" "''4''" 8 4 fileA] a4 a8
    by simp
  have 2: "lineSelection (cfgA\<lparr>cfg_line := ''x''\<rparr>) fileA = Inl (NumError ''x'' ErrSyntax)"
    using lineSelection_failures [of "cfgA\<lparr>cfg_line := ''x''\<rparr>" _ _ _ _ fileA "NumError ''x'' ErrSyntax"] ax
    by simp
  have 3: "lineSelection (cfgA\<lparr>cfg_line := ''4,x''\<rparr>) fileA = Inl (NumError ''x'' ErrSyntax)"
    using lineSelection_failures [of "cfgA\<lparr>cfg_line := ''4,x''\<rparr>" "''4''" "''x''" 4 _ fileA _ "NumError ''x'' ErrSyntax"] a4 ax
    by simp
  have "lineSelection cfgL fileA = Inl ErrWrongRange"
    using lineSelection_failures [of cfgL "''8''" "''4''" 8 4 fileA] a4 a8 l
    by simp
  with v l have 4: "run latin1_IsUpper id (\<lambda>fs n. Inr []) cfgL fileA = (fileA, Inl ErrWrongRange)"
    using lineSelection_failures [of cfgL _ _ _ _ fileA _ _ ErrWrongRange latin1_IsUpper id "\<lambda>fs n. Inr []"]
    by simp
  from 1 2 3 4 show ?thesis
    by simp
qed

text \<open>
  Claim C6 as stated fails: in \<^verbatim>\<open>4,x,12\<close> the second token is present and is not an
  integer, and line selection returns the span \<open>(4, 4)\<close>.
\<close>

theorem lineSelection_second_token_ignored:
  "Split ''4,x,12'' CHR '','' = [''4'', ''x'', ''12'']
   \<and> Atoi ''x'' = Inl (NumError ''x'' ErrSyntax)
   \<and> lineSelection (cfgA\<lparr>cfg_line := ''4,x,12''\<rparr>) fileA = Inr (4, 4)"
  by (simp add: lineSelection_def Atoi_eval)

subsection \<open>The rewriter\<close>

lemmas example_defs = cfgA_def fsA_def structA_def fileA_def

lemmas Line_eval = Position_Line_def inFile_def NoPos_def

declare Inspect_expr.simps [simp del]

lemma Inspect_expr_simps [simp]:
  "Inspect_expr U c s e (Ident i) = Ident i"
  "Inspect_expr U c s e (BasicLit b) = BasicLit b"
  "Inspect_expr U c s e (StarExpr star x) = StarExpr star (Inspect_expr U c s e x)"
  "Inspect_expr U c s e (ArrayType lbrack len elt) =
     ArrayType lbrack (map_option (Inspect_expr U c s e) len) (Inspect_expr U c s e elt)"
  "Inspect_expr U c s e (SelectorExpr x sel) = SelectorExpr (Inspect_expr U c s e x) sel"
  "Inspect_expr U c s e (MapType mp k v) =
     MapType mp (Inspect_expr U c s e k) (Inspect_expr U c s e v)"
  "Inspect_expr U c s e (CompositeLit ty lbrace elts rbrace) =
     CompositeLit (map_option (Inspect_expr U c s e) ty) lbrace
       (map (Inspect_expr U c s e) elts) rbrace"
  by (simp_all add: rewriteFunc_def
      Inspect_expr.simps [of _ _ _ _ "Ident _"] Inspect_expr.simps [of _ _ _ _ "BasicLit _"]
      Inspect_expr.simps [of _ _ _ _ "StarExpr _ _"]
      Inspect_expr.simps [of _ _ _ _ "ArrayType _ _ _"]
      Inspect_expr.simps [of _ _ _ _ "SelectorExpr _ _"]
      Inspect_expr.simps [of _ _ _ _ "MapType _ _ _"]
      Inspect_expr.simps [of _ _ _ _ "CompositeLit _ _ _ _"])

lemma rewriteField_eq:
  "rewriteField U c s e f =
     (if fieldMatches U c s e f then Field (Names f) (NewIdent (cfg_to c)) (Tag f) else f)"
  by (auto simp: rewriteField_def fieldMatches_def Let_def split: option.splits)

lemma Inspect_expr_NewIdent [simp]: "Inspect_expr U c s e (NewIdent x) = NewIdent x"
  by (simp add: NewIdent_def)

lemma Inspect_expr_StructType:
  "Inspect_expr U c s e (StructType struct fl) =
     StructType struct (FieldList (Opening fl)
       (map (\<lambda>f. if fieldMatches U c s e f
                  then Field (Names f) (NewIdent (cfg_to c)) (Tag f)
                  else Field (Names f) (Inspect_expr U c s e (Type f)) (Tag f))
          (List fl))
       (Closing fl))"
  by (simp add: Inspect_expr.simps [of _ _ _ _ "StructType _ _"] rewriteFunc_def comp_def
      rewriteField_eq if_distrib [of Names] if_distrib [of Tag] if_distrib [of Type]
      if_distrib [of "Inspect_expr U c s e"] cong: if_cong)

lemma noMatch_identity_aux:
  "(\<forall>g\<in>set (structFields_expr t). \<not> fieldMatches U c s e g) \<longrightarrow> Inspect_expr U c s e t = t"
  "(\<forall>g\<in>set (structFields_field f). \<not> fieldMatches U c s e g) \<longrightarrow>
        Inspect_expr U c s e (Type f) = Type f"
  "(\<forall>g\<in>set (structFields_fieldList fl). \<not> fieldMatches U c s e g) \<longrightarrow>
        (\<forall>f\<in>set (List fl). Inspect_expr U c s e (Type f) = Type f)"
proof (induction t and f and fl)
  case (StructType struct fl)
  show ?case
  proof
    assume h: "\<forall>g\<in>set (structFields_expr (StructType struct fl)). \<not> fieldMatches U c s e g"
    then have 1: "\<forall>f\<in>set (List fl). \<not> fieldMatches U c s e f"
      and 2: "\<forall>g\<in>set (structFields_fieldList fl). \<not> fieldMatches U c s e g"
      by auto
    from 2 StructType have 3: "\<forall>f\<in>set (List fl). Inspect_expr U c s e (Type f) = Type f"
      by blast
    have "map (\<lambda>f. if fieldMatches U c s e f
                  then Field (Names f) (NewIdent (cfg_to c)) (Tag f)
                  else Field (Names f) (Inspect_expr U c s e (Type f)) (Tag f)) (List fl)
          = List fl"
      using 1 3 by (auto intro!: map_idI)
    then show "Inspect_expr U c s e (StructType struct fl) = StructType struct fl"
      by (simp add: Inspect_expr_StructType)
  qed
next
  case (ArrayType lbrack len elt)
  then show ?case by (cases len) auto
next
  case (CompositeLit ty lbrace elts rbrace)
  then show ?case by (cases ty) (auto intro!: map_idI)
next
  case (FieldList opn l closing)
  then show ?case by auto
qed auto


lemma noMatch_Inspect_expr:
  "\<forall>g\<in>set (structFields_expr t). \<not> fieldMatches U c s e g \<Longrightarrow> Inspect_expr U c s e t = t"
  using noMatch_identity_aux(1) by blast


lemma noMatch_Inspect_exprs:
  "\<forall>g\<in>set (concat (map structFields_expr xs)). \<not> fieldMatches U c s e g \<Longrightarrow>
   map (Inspect_expr U c s e) xs = xs"
  by (auto intro!: map_idI noMatch_Inspect_expr)




lemma ExprString_NewIdent [simp]: "ExprString (NewIdent x) = x"
  by (simp add: NewIdent_def)

lemma concat_map_Nil: "(\<And>x. x \<in> set xs \<Longrightarrow> f x = []) \<Longrightarrow> concat (map f xs) = []"
  by (induction xs) auto





text \<open>The field after the visit of its struct type and of the struct types inside it.\<close>

lemma structFields_NewIdent [simp]: "structFields_expr (NewIdent x) = []"
  by (simp add: NewIdent_def)





lemma covered_append [simp]:
  "covered U c s e (rs @ rs') g \<longleftrightarrow> covered U c s e rs g \<or> covered U c s e rs' g"
  unfolding covered_def by auto

lemma covered_Nil [simp]: "\<not> covered U c s e [] g"
  by (simp add: covered_def)

lemma covered_concat [simp]:
  "covered U c s e (concat xss) g \<longleftrightarrow> (\<exists>rs\<in>set xss. covered U c s e rs g)"
  unfolding covered_def by auto



lemma map_option_eq_self_iff: "map_option f x = x \<longleftrightarrow> (\<forall>y\<in>set_option x. f y = y)"
  by (cases x) auto


































lemma selectName_find:
  "selectName U c names =
     (case find (\<lambda>n. \<not> cfg_skipUnexportedFields c \<or> isPublicName U (Name n)) names of
        None \<Rightarrow> [] | Some n \<Rightarrow> Name n)"
  by (induction names) auto

lemma DecodeRune_ascii: "of_char ch < (128::nat) \<Longrightarrow> DecodeRune (ch # rest) = of_char ch"
  by (simp add: Let_def)

text \<open>
  Claim C2. For a field with one or more names: without the visibility filter the
  name used by the rewriter is the first declared name; with the filter it is the
  first declared name that \<^verbatim>\<open>isPublicName\<close> accepts, and the field is left as it is
  when no name is accepted. An anonymous field is left as it is whenever the filter is
  on. \<^verbatim>\<open>isPublicName\<close> accepts a name when its first character is an upper-case
  letter (for an ASCII first byte: when \<open>U\<close> holds of that byte).
\<close>

theorem representative_name:
  "(Names f \<noteq> [] \<and> \<not> cfg_skipUnexportedFields c \<longrightarrow>
      fieldNameOf U c f = Some (Name (hd (Names f))))
   \<and> (Names f \<noteq> [] \<and> cfg_skipUnexportedFields c \<longrightarrow>
      fieldNameOf U c f =
        Some (case find (\<lambda>n. isPublicName U (Name n)) (Names f) of
                None \<Rightarrow> [] | Some n \<Rightarrow> Name n))
   \<and> (Names f \<noteq> [] \<and> cfg_skipUnexportedFields c
        \<and> (\<forall>n\<in>set (Names f). \<not> isPublicName U (Name n)) \<longrightarrow>
      rewriteField U c start end' f = f)
   \<and> (Names f = [] \<and> cfg_skipUnexportedFields c \<longrightarrow> rewriteField U c start end' f = f)
   \<and> (isPublicName U name \<longleftrightarrow> name \<noteq> [] \<and> U (DecodeRune name))
   \<and> (of_char ch < (128::nat) \<longrightarrow> isPublicName U (ch # rest) = U (of_char ch))"
proof (intro conjI impI)
  assume "Names f \<noteq> [] \<and> \<not> cfg_skipUnexportedFields c"
  then show "fieldNameOf U c f = Some (Name (hd (Names f)))"
    by (cases "Names f") (simp_all add: fieldNameOf_def)
next
  assume "Names f \<noteq> [] \<and> cfg_skipUnexportedFields c"
  then show "fieldNameOf U c f =
      Some (case find (\<lambda>n. isPublicName U (Name n)) (Names f) of None \<Rightarrow> [] | Some n \<Rightarrow> Name n)"
    by (simp add: fieldNameOf_def selectName_find)
next
  assume h: "Names f \<noteq> [] \<and> cfg_skipUnexportedFields c
      \<and> (\<forall>n\<in>set (Names f). \<not> isPublicName U (Name n))"
  then have "find (\<lambda>n. isPublicName U (Name n)) (Names f) = None"
    by (simp add: find_None_iff)
  with h have "fieldNameOf U c f = Some []"
    by (simp add: fieldNameOf_def selectName_find)
  then show "rewriteField U c start end' f = f"
    by (simp add: rewriteField_def Let_def)
next
  assume "Names f = [] \<and> cfg_skipUnexportedFields c"
  then show "rewriteField U c start end' f = f"
    by (simp add: rewriteField_def fieldNameOf_def Let_def split: expr.splits)
next
  show "isPublicName U name \<longleftrightarrow> name \<noteq> [] \<and> U (DecodeRune name)"
    by (simp add: isPublicName_def)
next
  assume "of_char ch < (128::nat)"
  then show "isPublicName U (ch # rest) = U (of_char ch)"
    by (simp add: isPublicName_def Let_def)
qed

lemma isPublicName_Baz: "isPublicName latin1_IsUpper ''Baz''"
  by (simp add: isPublicName_def latin1_IsUpper_def)

lemma isPublicName_qux: "\<not> isPublicName latin1_IsUpper ''qux''"
  by (simp add: isPublicName_def latin1_IsUpper_def)

lemma isPublicName_bar: "\<not> isPublicName latin1_IsUpper ''bar''"
  by (simp add: isPublicName_def latin1_IsUpper_def)

theorem representative_name_witness:
  "fieldNameOf latin1_IsUpper cfgA
     (Field [MkIdent 43 ''qux'', MkIdent 48 ''Baz''] (Ident (MkIdent 52 ''int'')) None)
   = Some ''qux''
   \<and> fieldNameOf latin1_IsUpper (cfgA\<lparr>cfg_skipUnexportedFields := True\<rparr>)
     (Field [MkIdent 43 ''qux'', MkIdent 48 ''Baz''] (Ident (MkIdent 52 ''int'')) None)
   = Some ''Baz''
   \<and> rewriteField latin1_IsUpper (cfgA\<lparr>cfg_skipUnexportedFields := True\<rparr>) 3 7
     (Field [MkIdent 31 ''bar''] (Ident (MkIdent 35 ''string'')) None)
   = Field [MkIdent 31 ''bar''] (Ident (MkIdent 35 ''string'')) None
   \<and> rewriteField latin1_IsUpper (cfgA\<lparr>cfg_skipUnexportedFields := True\<rparr>) 3 7
     (Field [] (Ident (MkIdent 57 ''string'')) None)
   = Field [] (Ident (MkIdent 57 ''string'')) None
   \<and> isPublicName latin1_IsUpper ''Baz''"
proof -
  have off: "\<not> cfg_skipUnexportedFields cfgA"
    by (simp add: cfgA_def)
  note r = representative_name [where U = latin1_IsUpper and start = 3 and end' = 7]
  have 1: "fieldNameOf latin1_IsUpper cfgA
     (Field [MkIdent 43 ''qux'', MkIdent 48 ''Baz''] (Ident (MkIdent 52 ''int'')) None)
     = Some ''qux''"
    using r [of "Field [MkIdent 43 ''qux'', MkIdent 48 ''Baz''] (Ident (MkIdent 52 ''int'')) None"
        cfgA] off
    by simp
  have 2: "fieldNameOf latin1_IsUpper (cfgA\<lparr>cfg_skipUnexportedFields := True\<rparr>)
     (Field [MkIdent 43 ''qux'', MkIdent 48 ''Baz''] (Ident (MkIdent 52 ''int'')) None)
     = Some ''Baz''"
    using r [of "Field [MkIdent 43 ''qux'', MkIdent 48 ''Baz''] (Ident (MkIdent 52 ''int'')) None"
        "cfgA\<lparr>cfg_skipUnexportedFields := True\<rparr>"]
    by (simp add: isPublicName_Baz isPublicName_qux)
  have 3: "rewriteField latin1_IsUpper (cfgA\<lparr>cfg_skipUnexportedFields := True\<rparr>) 3 7
     (Field [MkIdent 31 ''bar''] (Ident (MkIdent 35 ''string'')) None)
     = Field [MkIdent 31 ''bar''] (Ident (MkIdent 35 ''string'')) None"
    using r [of "Field [MkIdent 31 ''bar''] (Ident (MkIdent 35 ''string'')) None"
        "cfgA\<lparr>cfg_skipUnexportedFields := True\<rparr>"]
    by (simp add: isPublicName_bar)
  have 4: "rewriteField latin1_IsUpper (cfgA\<lparr>cfg_skipUnexportedFields := True\<rparr>) 3 7
     (Field [] (Ident (MkIdent 57 ''string'')) None)
     = Field [] (Ident (MkIdent 57 ''string'')) None"
    using r [of "Field [] (Ident (MkIdent 57 ''string'')) None"
        "cfgA\<lparr>cfg_skipUnexportedFields := True\<rparr>"]
    by simp
  have 5: "isPublicName latin1_IsUpper ''Baz''"
    using r [of _ _ "''Baz''" "CHR ''B''" "''az''"]
    by (simp add: latin1_IsUpper_def)
  from 1 2 3 4 5 show ?thesis
    by simp
qed

text \<open>
  Claim C9. A field with several names sharing one type, inside the span and with a
  type spelled \<^verbatim>\<open>from\<close>: when a name passes the visibility policy (without the
  filter, the first name, which is not empty; with the filter, some name that
  \<^verbatim>\<open>isPublicName\<close> accepts), the one shared type expression becomes the identifier
  \<^verbatim>\<open>to\<close> and the list of names stays, so the new type holds for every name of the
  group, the unexported ones included.
\<close>

theorem shared_type_rewritten:
  assumes "names \<noteq> []"
    and "start \<le> Position_Line (cfg_fileSet c) (field_Pos (Field names ty tag))"
    and "Position_Line (cfg_fileSet c) (field_Pos (Field names ty tag)) \<le> end'"
    and "ExprString ty = cfg_from c"
    and "(\<not> cfg_skipUnexportedFields c \<and> Name (hd names) \<noteq> [])
         \<or> (cfg_skipUnexportedFields c \<and> (\<exists>n\<in>set names. isPublicName U (Name n)))"
  shows "rewriteField U c start end' (Field names ty tag) = Field names (NewIdent (cfg_to c)) tag
    \<and> ExprString (NewIdent (cfg_to c)) = cfg_to c"
proof -
  from assms(5) have "\<exists>fieldName. fieldNameOf U c (Field names ty tag) = Some fieldName
      \<and> fieldName \<noteq> []"
  proof
    assume "\<not> cfg_skipUnexportedFields c \<and> Name (hd names) \<noteq> []"
    with assms(1) show ?thesis
      by (cases names) (simp_all add: fieldNameOf_def)
  next
    assume h: "cfg_skipUnexportedFields c \<and> (\<exists>n\<in>set names. isPublicName U (Name n))"
    then obtain n where n: "find (\<lambda>n. isPublicName U (Name n)) names = Some n"
      by (cases "find (\<lambda>n. isPublicName U (Name n)) names") (auto simp: find_None_iff)
    then have "isPublicName U (Name n)"
      by (auto simp: find_Some_iff)
    then have "Name n \<noteq> []"
      by (auto simp: isPublicName_def)
    with h n assms(1) show ?thesis
      by (simp add: fieldNameOf_def selectName_find)
  qed
  with assms(2-4) have "fieldMatches U c start end' (Field names ty tag)"
    by (auto simp: fieldMatches_def)
  then show ?thesis
    by (simp add: rewriteField_eq)
qed

theorem shared_type_rewritten_witness:
  "rewriteField latin1_IsUpper
     (cfgA\<lparr>cfg_from := ''int'', cfg_to := ''int64'', cfg_skipUnexportedFields := True\<rparr>) 3 7
     (Field [MkIdent 43 ''qux'', MkIdent 48 ''Baz''] (Ident (MkIdent 52 ''int'')) None)
   = Field [MkIdent 43 ''qux'', MkIdent 48 ''Baz''] (NewIdent ''int64'') None"
  using shared_type_rewritten [of "[MkIdent 43 ''qux'', MkIdent 48 ''Baz'']" 3
      "cfgA\<lparr>cfg_from := ''int'', cfg_to := ''int64'', cfg_skipUnexportedFields := True\<rparr>"
      "Ident (MkIdent 52 ''int'')" None 7 latin1_IsUpper]
  by (simp add: isPublicName_Baz cfgA_def fsA_def Line_eval)






subsection \<open>Struct and field selection\<close>

lemma encStruct_fold:
  "fold (\<lambda>(_, st) enc. if st_name st = nm then Some (st_node st) else enc) xs acc =
     (case filter (\<lambda>e. st_name (snd e) = nm) xs of
        [] \<Rightarrow> acc
      | y # ys \<Rightarrow> Some (st_node (snd (last (y # ys)))))"
proof (induction xs rule: rev_induct)
  case Nil
  then show ?case by simp
next
  case (snoc x xs)
  then show ?case
    by (cases x) (auto split: list.splits)
qed

lemma names_fold:
  "fold (\<lambda>field enc'. if Name field = fn then Some f else enc') names enc =
     (if fn \<in> Name ` set names then Some f else enc)"
  by (induction names arbitrary: enc) auto

lemma encField_fold:
  "fold (\<lambda>f enc. fold (\<lambda>field enc'. if Name field = fn then Some f else enc') (Names f) enc)
     fs acc =
     (case filter (\<lambda>f. fn \<in> Name ` set (Names f)) fs of
        [] \<Rightarrow> acc
      | y # ys \<Rightarrow> Some (last (y # ys)))"
proof (induction fs rule: rev_induct)
  case Nil
  then show ?case by simp
next
  case (snoc x xs)
  then show ?case
    by (auto simp: names_fold split: list.splits)
qed

lemma fieldSelection_eq:
  "fieldSelection c (StructType struct fl) =
     (case filter (\<lambda>f. cfg_fieldName c \<in> Name ` set (Names f)) (List fl) of
        [] \<Rightarrow> Inl (ErrNoFieldName (cfg_structName c) (cfg_fieldName c))
      | y # ys \<Rightarrow>
          Inr (Position_Line (cfg_fileSet c) (field_Pos (last (y # ys))),
               Position_Line (cfg_fileSet c) (field_End (last (y # ys)))))"
  by (simp add: fieldSelection_def encField_fold Let_def split: list.splits)

lemma structSelection_eq:
  "structSelection R c node =
     (case filter (\<lambda>e. st_name (snd e) = cfg_structName c) (R (collectStructs node)) of
        [] \<Rightarrow> Inl ErrStructNotExist
      | y # ys \<Rightarrow>
          (let st = st_node (snd (last (y # ys)))
           in if cfg_fieldName c \<noteq> [] then fieldSelection c st
              else Inr (Position_Line (cfg_fileSet c) (expr_Pos st),
                        Position_Line (cfg_fileSet c) (expr_End st))))"
  by (simp add: structSelection_def encStruct_fold Let_def split: list.splits)

lemma filter_perm_single:
  assumes "mset ys = mset xs" and "filter P xs = [x]"
  shows "filter P ys = [x]"
proof -
  have "mset (filter P ys) = mset (filter P xs)"
    using assms(1) by simp
  also have "\<dots> = {#x#}"
    by (simp only: assms(2) mset.simps add_mset_commute)
  finally show ?thesis
    by (simp only: mset_single_iff)
qed

lemma filter_perm_Nil:
  assumes "mset ys = mset xs" and "filter P xs = []"
  shows "filter P ys = []"
proof -
  have "mset (filter P ys) = mset (filter P xs)"
    using assms(1) by (simp add: mset_filter)
  with assms(2) show ?thesis
    by simp
qed

lemma Position_Line_next:
  assumes "inFile fs p" and "inFile fs (p + 1)" and "p \<noteq> NoPos"
    and "p + 1 - file_base fs \<notin> set (file_lines fs)"
  shows "Position_Line fs (p + 1) = Position_Line fs p"
proof -
  have b: "file_base fs \<le> p"
    using assms(1) by (simp add: inFile_def)
  then have suc: "p + 1 - file_base fs = Suc (p - file_base fs)"
    by simp
  have "filter (\<lambda>l. l \<le> p + 1 - file_base fs) (file_lines fs)
      = filter (\<lambda>l. l \<le> p - file_base fs) (file_lines fs)"
  proof (intro filter_cong refl)
    fix l
    assume "l \<in> set (file_lines fs)"
    with assms(4) have "l \<noteq> p + 1 - file_base fs"
      by auto
    with suc show "(l \<le> p + 1 - file_base fs) = (l \<le> p - file_base fs)"
      by auto
  qed
  with assms(1-3) show ?thesis
    by (simp add: Position_Line_def NoPos_def)
qed

lemma set_update_subset: "set (AList.update k v al) \<subseteq> insert (k, v) (set al)"
  by (induction al) auto

lemma structNodes_update:
  "structNodes m \<Longrightarrow> structNodes (AList.update k (MkStructType nm (StructType struct fl)) m)"
  using set_update_subset [of k "MkStructType nm (StructType struct fl)" m]
  by (fastforce simp: structNodes_def)

lemma structNodes_collectFunc: "structNodes m \<Longrightarrow> structNodes (collectFunc n m)"
  by (auto simp: collectFunc_def structNodes_update
      split: node.splits spec.splits expr.splits option.splits list.splits field.splits)

lemma structNodes_walkList:
  "\<forall>x\<in>set xs. \<forall>m. structNodes m \<longrightarrow> structNodes (f x m) \<Longrightarrow>
   structNodes m \<Longrightarrow> structNodes (walkList (map f xs) m)"
  by (induction xs arbitrary: m) (simp_all add: walkList_def)

lemma structNodes_walkOpt:
  "\<forall>x\<in>set_option w. \<forall>m. structNodes m \<longrightarrow> structNodes (f x m) \<Longrightarrow>
   structNodes m \<Longrightarrow> structNodes (walkOpt (map_option f w) m)"
  by (cases w) (simp_all add: walkOpt_def)

lemma structNodes_collect_aux:
  "\<forall>m. structNodes m \<longrightarrow> structNodes (collect_expr t m)"
  "\<forall>m. structNodes m \<longrightarrow> structNodes (collect_field f m)"
  "\<forall>m. structNodes m \<longrightarrow> structNodes (collect_fieldList fl m)"
proof (induction t and f and fl)
  case (ArrayType lbrack len elt)
  then show ?case
    by (simp add: structNodes_walkOpt structNodes_collectFunc)
next
  case (CompositeLit ty lbrace elts rbrace)
  then show ?case
    by (simp add: structNodes_walkList structNodes_walkOpt structNodes_collectFunc)
next
  case (FieldList opn l closing)
  then show ?case
    by (simp add: structNodes_walkList)
qed (simp_all add: structNodes_collectFunc)

lemma structNodes_collect_spec:
  "structNodes m \<Longrightarrow> structNodes (collect_spec sp m)"
  by (cases sp)
    (simp_all add: structNodes_collect_aux(1) structNodes_walkList structNodes_walkOpt
      structNodes_collectFunc)

lemma structNodes_collect_decl_aux:
  "\<forall>m. structNodes m \<longrightarrow> structNodes (collect_decl d m)"
  "\<forall>m. structNodes m \<longrightarrow> structNodes (collect_stmt st m)"
proof (induction d and st)
  case (GenDecl specs)
  then show ?case
    by (simp add: structNodes_walkList structNodes_collect_spec)
next
  case (FuncDecl recv name params results body)
  have "structNodes (walkOpt (map_option walkList (map_option (map collect_stmt) body)) m)"
    if "structNodes m" for m
  proof (cases body)
    case None
    with that show ?thesis by (simp add: walkOpt_def)
  next
    case (Some b)
    with FuncDecl that show ?thesis
      by (simp add: walkOpt_def structNodes_walkList)
  qed
  then show ?case
    by (simp add: structNodes_walkOpt structNodes_collect_aux(3))
next
  case (DeclStmt d)
  then show ?case by simp
next
  case (ExprStmt x)
  then show ?case by (simp add: structNodes_collect_aux(1))
next
  case (AssignStmt lhs rhs)
  then show ?case by (simp add: structNodes_walkList structNodes_collect_aux(1))
next
  case (ReturnStmt results)
  then show ?case by (simp add: structNodes_walkList structNodes_collect_aux(1))
qed

lemma structNodes_collectStructs: "structNodes (collectStructs node)"
proof -
  have "structNodes []"
    by (simp add: structNodes_def)
  then show ?thesis
    by (simp add: collectStructs_def structNodes_walkList structNodes_collect_decl_aux(1))
qed

lemmas collect_eval = collectStructs_def walkList_def walkOpt_def collectFunc_def

lemma collectStructs_fileA: "collectStructs fileA = [(21, MkStructType ''foo'' structA)]"
  by (simp add: collect_eval fileA_def structA_def)

lemma collectStructs_fileB:
  "collectStructs fileB =
     [(21, MkStructType ''foo'' (StructType 21 (FieldList 28
             [Field [MkIdent 31 ''bar''] (Ident (MkIdent 35 ''string'')) None] 42)))]"
  by (simp add: collect_eval fileB_def)

lemma collectStructs_fileC:
  "collectStructs fileC = [(21, MkStructType ''foo'' outerC), (35, MkStructType ''foo'' innerC)]"
  by (simp add: collect_eval fileC_def outerC_def innerC_def)

text \<open>
  Claim C3, as amended. For a file in which exactly one collected struct has the
  requested name, whatever the order of the range loop: without a field name, the span
  runs from the line of the keyword \<^verbatim>\<open>struct\<close> to the line of the position after the
  closing brace, which is the line of the closing brace whenever that position lies in
  the file and starts no line; with a field name that fields of the struct declare,
  the span runs from the line of the start to the line of the end of the last such
  field.
\<close>

theorem structSelection_unique:
  assumes "mset (R (collectStructs node)) = mset (collectStructs node)"
    and "filter (\<lambda>e. st_name (snd e) = cfg_structName c) (collectStructs node)
         = [(p, MkStructType nm (StructType struct (FieldList opn l closing)))]"
    and "IsValid closing"
  shows "(cfg_fieldName c = [] \<longrightarrow>
       structSelection R c node =
         Inr (Position_Line (cfg_fileSet c) struct, Position_Line (cfg_fileSet c) (closing + 1)))
    \<and> (inFile (cfg_fileSet c) closing \<and> inFile (cfg_fileSet c) (closing + 1)
        \<and> closing + 1 - file_base (cfg_fileSet c) \<notin> set (file_lines (cfg_fileSet c)) \<longrightarrow>
       Position_Line (cfg_fileSet c) (closing + 1) = Position_Line (cfg_fileSet c) closing)
    \<and> (cfg_fieldName c \<noteq> []
        \<and> filter (\<lambda>f. cfg_fieldName c \<in> Name ` set (Names f)) l = g # gs \<longrightarrow>
       structSelection R c node =
         Inr (Position_Line (cfg_fileSet c) (field_Pos (last (g # gs))),
              Position_Line (cfg_fileSet c) (field_End (last (g # gs)))))"
proof -
  from filter_perm_single [OF assms(1,2)]
  have sel: "structSelection R c node =
      (if cfg_fieldName c \<noteq> []
       then fieldSelection c (StructType struct (FieldList opn l closing))
       else Inr (Position_Line (cfg_fileSet c) struct,
                 Position_Line (cfg_fileSet c) (closing + 1)))"
    using assms(3) by (simp add: structSelection_eq)
  have 1: "cfg_fieldName c = [] \<longrightarrow>
       structSelection R c node =
         Inr (Position_Line (cfg_fileSet c) struct, Position_Line (cfg_fileSet c) (closing + 1))"
    by (simp add: sel)
  have 2: "inFile (cfg_fileSet c) closing \<and> inFile (cfg_fileSet c) (closing + 1)
        \<and> closing + 1 - file_base (cfg_fileSet c) \<notin> set (file_lines (cfg_fileSet c)) \<longrightarrow>
       Position_Line (cfg_fileSet c) (closing + 1) = Position_Line (cfg_fileSet c) closing"
    using assms(3) Position_Line_next [of "cfg_fileSet c" closing] by (simp add: IsValid_def)
  have 3: "cfg_fieldName c \<noteq> []
        \<and> filter (\<lambda>f. cfg_fieldName c \<in> Name ` set (Names f)) l = g # gs \<longrightarrow>
       structSelection R c node =
         Inr (Position_Line (cfg_fileSet c) (field_Pos (last (g # gs))),
              Position_Line (cfg_fileSet c) (field_End (last (g # gs))))"
    by (simp add: sel fieldSelection_eq)
  from 1 2 3 show ?thesis
    by blast
qed

theorem structSelection_unique_witness:
  "structSelection id (cfgA\<lparr>cfg_fieldName := []\<rparr>) fileA = Inr (3, 7)
   \<and> Position_Line fsA 65 = Position_Line fsA 64
   \<and> structSelection id cfgA fileA = Inr (4, 4)"
proof -
  have f1: "filter (\<lambda>e. st_name (snd e) = cfg_structName cfgA) (collectStructs fileA)
      = [(21, MkStructType ''foo'' (StructType 21 (FieldList 28
       [Field [MkIdent 31 ''bar''] (Ident (MkIdent 35 ''string'')) None,
        Field [MkIdent 43 ''qux'', MkIdent 48 ''Baz''] (Ident (MkIdent 52 ''int'')) None,
        Field [] (Ident (MkIdent 57 ''string'')) None]
       64)))]"
    by (simp add: collectStructs_fileA cfgA_def structA_def)
  then have f2: "filter (\<lambda>e. st_name (snd e) = cfg_structName (cfgA\<lparr>cfg_fieldName := []\<rparr>))
        (collectStructs fileA)
      = [(21, MkStructType ''foo'' (StructType 21 (FieldList 28
       [Field [MkIdent 31 ''bar''] (Ident (MkIdent 35 ''string'')) None,
        Field [MkIdent 43 ''qux'', MkIdent 48 ''Baz''] (Ident (MkIdent 52 ''int'')) None,
        Field [] (Ident (MkIdent 57 ''string'')) None]
       64)))]"
    by simp
  have m: "mset (id (collectStructs fileA)) = mset (collectStructs fileA)"
    by simp
  have v: "IsValid 64"
    by (simp add: IsValid_def NoPos_def)
  from structSelection_unique [where R = id and node = fileA
      and c = "cfgA\<lparr>cfg_fieldName := []\<rparr>", OF m f2 v]
  have 1: "structSelection id (cfgA\<lparr>cfg_fieldName := []\<rparr>) fileA = Inr (3, 7)"
    and 2: "Position_Line fsA 65 = Position_Line fsA 64"
    by (simp_all add: cfgA_def fsA_def Line_eval IsValid_def)
  from structSelection_unique [where R = id and node = fileA and c = cfgA
      and g = "Field [MkIdent 31 ''bar''] (Ident (MkIdent 35 ''string'')) None" and gs = "[]",
      OF m f1 v]
  have 3: "structSelection id cfgA fileA = Inr (4, 4)"
    by (simp add: cfgA_def fsA_def Line_eval IsValid_def ident_End_def)
  from 1 2 3 show ?thesis
    by simp
qed

text \<open>
  Claim C3 as stated fails on \<^verbatim>\<open>b.go\<close>: the span starts at line 3, the line of the
  keyword \<^verbatim>\<open>struct\<close>, and the opening brace (position 28) is on line 4.
\<close>

theorem structSelection_starts_at_keyword:
  "collectStructs fileB =
     [(21, MkStructType ''foo'' (StructType 21 (FieldList 28
             [Field [MkIdent 31 ''bar''] (Ident (MkIdent 35 ''string'')) None] 42)))]
   \<and> structSelection id cfgB fileB = Inr (3, 6)
   \<and> Position_Line (cfg_fileSet cfgB) 28 = 4"
  by (simp add: collectStructs_fileB structSelection_eq cfgB_def fsB_def Line_eval IsValid_def)

text \<open>
  Claim C5. Whatever the order of the range loop: when no collected struct has the
  requested name, struct selection fails with \<open>ErrStructNotExist\<close>; when some struct
  has the name, a field name is given and no field of a struct of that name declares
  it, struct selection fails with \<open>ErrNoFieldName\<close>, which carries both names and
  differs from \<open>ErrStructNotExist\<close>; and a run whose struct selection fails ends with
  the tree it was given and the error, without any output.
\<close>

theorem selection_not_found:
  assumes "mset (R (collectStructs node)) = mset (collectStructs node)"
  shows "((\<forall>e\<in>set (collectStructs node). st_name (snd e) \<noteq> cfg_structName c) \<longrightarrow>
        structSelection R c node = Inl ErrStructNotExist)
    \<and> ((\<exists>e\<in>set (collectStructs node). st_name (snd e) = cfg_structName c)
        \<and> cfg_fieldName c \<noteq> []
        \<and> (\<forall>e\<in>set (collectStructs node). \<forall>struct fl.
              st_name (snd e) = cfg_structName c \<and> st_node (snd e) = StructType struct fl \<longrightarrow>
              (\<forall>f\<in>set (List fl). cfg_fieldName c \<notin> Name ` set (Names f))) \<longrightarrow>
        structSelection R c node = Inl (ErrNoFieldName (cfg_structName c) (cfg_fieldName c)))
    \<and> ErrStructNotExist \<noteq> ErrNoFieldName (cfg_structName c) (cfg_fieldName c)
    \<and> (validate c = None \<and> cfg_line c = [] \<and> cfg_structName c \<noteq> []
        \<and> structSelection R c node = Inl err \<longrightarrow>
        run U R F c node = (node, Inl err))"
proof (intro conjI impI)
  assume "\<forall>e\<in>set (collectStructs node). st_name (snd e) \<noteq> cfg_structName c"
  then have "filter (\<lambda>e. st_name (snd e) = cfg_structName c) (collectStructs node) = []"
    by (simp add: filter_empty_conv)
  from filter_perm_Nil [OF assms this]
  show "structSelection R c node = Inl ErrStructNotExist"
    by (simp add: structSelection_eq)
next
  assume h: "(\<exists>e\<in>set (collectStructs node). st_name (snd e) = cfg_structName c)
        \<and> cfg_fieldName c \<noteq> []
        \<and> (\<forall>e\<in>set (collectStructs node). \<forall>struct fl.
              st_name (snd e) = cfg_structName c \<and> st_node (snd e) = StructType struct fl \<longrightarrow>
              (\<forall>f\<in>set (List fl). cfg_fieldName c \<notin> Name ` set (Names f)))"
  let ?P = "\<lambda>e. st_name (snd e) = cfg_structName c"
  have s: "set (R (collectStructs node)) = set (collectStructs node)"
    using assms by (rule mset_eq_setD)
  with h obtain y ys where ys: "filter ?P (R (collectStructs node)) = y # ys"
    by (cases "filter ?P (R (collectStructs node))") (auto simp: filter_empty_conv)
  then have "last (y # ys) \<in> set (filter ?P (R (collectStructs node)))"
    by (metis last_in_set list.distinct(1))
  with s have mem: "last (y # ys) \<in> set (collectStructs node)" and nm: "?P (last (y # ys))"
    by auto
  from mem structNodes_collectStructs [of node]
  obtain struct fl where st: "st_node (snd (last (y # ys))) = StructType struct fl"
    by (auto simp: structNodes_def)
  with h mem nm have "\<forall>f\<in>set (List fl). cfg_fieldName c \<notin> Name ` set (Names f)"
    by blast
  then have "filter (\<lambda>f. cfg_fieldName c \<in> Name ` set (Names f)) (List fl) = []"
    by (simp add: filter_empty_conv)
  with h ys st
  show "structSelection R c node = Inl (ErrNoFieldName (cfg_structName c) (cfg_fieldName c))"
    by (simp add: structSelection_eq fieldSelection_eq Let_def)
next
  show "ErrStructNotExist \<noteq> ErrNoFieldName (cfg_structName c) (cfg_fieldName c)"
    by simp
next
  assume "validate c = None \<and> cfg_line c = [] \<and> cfg_structName c \<noteq> []
        \<and> structSelection R c node = Inl err"
  then show "run U R F c node = (node, Inl err)"
    by (simp add: run_def findSelection_def)
qed

theorem selection_not_found_witness:
  "structSelection id (cfgA\<lparr>cfg_structName := ''nope''\<rparr>) fileA = Inl ErrStructNotExist
   \<and> structSelection id (cfgA\<lparr>cfg_fieldName := ''zzz''\<rparr>) fileA
     = Inl (ErrNoFieldName ''foo'' ''zzz'')
   \<and> run latin1_IsUpper id (\<lambda>fs n. Inr []) (cfgA\<lparr>cfg_fieldName := ''zzz''\<rparr>) fileA
     = (fileA, Inl (ErrNoFieldName ''foo'' ''zzz''))"
proof -
  have m: "mset (id (collectStructs fileA)) = mset (collectStructs fileA)"
    by simp
  have 1: "structSelection id (cfgA\<lparr>cfg_structName := ''nope''\<rparr>) fileA = Inl ErrStructNotExist"
    using selection_not_found [where R = id and node = fileA
        and c = "cfgA\<lparr>cfg_structName := ''nope''\<rparr>", OF m]
    by (simp add: collectStructs_fileA cfgA_def)
  have 2: "structSelection id (cfgA\<lparr>cfg_fieldName := ''zzz''\<rparr>) fileA
     = Inl (ErrNoFieldName ''foo'' ''zzz'')"
    using selection_not_found [where R = id and node = fileA
        and c = "cfgA\<lparr>cfg_fieldName := ''zzz''\<rparr>", OF m]
    by (simp add: collectStructs_fileA cfgA_def structA_def)
  have v: "validate (cfgA\<lparr>cfg_fieldName := ''zzz''\<rparr>) = None"
    by (simp add: validate_def cfgA_def)
  have 3: "run latin1_IsUpper id (\<lambda>fs n. Inr []) (cfgA\<lparr>cfg_fieldName := ''zzz''\<rparr>) fileA
     = (fileA, Inl (ErrNoFieldName ''foo'' ''zzz''))"
    using selection_not_found [where R = id and node = fileA
        and c = "cfgA\<lparr>cfg_fieldName := ''zzz''\<rparr>" and U = latin1_IsUpper
        and F = "\<lambda>fs n. Inr []" and err = "ErrNoFieldName ''foo'' ''zzz''", OF m] 2 v
    by (simp add: cfgA_def)
  from 1 2 3 show ?thesis
    by simp
qed

text \<open>
  Claim C8, as amended. When collected structs share the requested name, struct
  selection resolves to the last of them in the order in which the range loop visits
  the map: a struct of the collection with that name, whose span (or whose field's
  span) is the result.
\<close>

theorem structSelection_last_in_range_order:
  assumes "mset (R (collectStructs node)) = mset (collectStructs node)"
    and "filter (\<lambda>e. st_name (snd e) = cfg_structName c) (R (collectStructs node)) = y # ys"
  shows "last (y # ys) \<in> set (collectStructs node)
    \<and> st_name (snd (last (y # ys))) = cfg_structName c
    \<and> structSelection R c node =
        (if cfg_fieldName c \<noteq> [] then fieldSelection c (st_node (snd (last (y # ys))))
         else Inr (Position_Line (cfg_fileSet c) (expr_Pos (st_node (snd (last (y # ys))))),
                   Position_Line (cfg_fileSet c) (expr_End (st_node (snd (last (y # ys)))))))"
proof -
  let ?P = "\<lambda>e. st_name (snd e) = cfg_structName c"
  have s: "set (R (collectStructs node)) = set (collectStructs node)"
    using assms(1) by (rule mset_eq_setD)
  have "last (y # ys) \<in> set (filter ?P (R (collectStructs node)))"
    by (metis assms(2) last_in_set list.distinct(1))
  with s have "last (y # ys) \<in> set (collectStructs node)" and "?P (last (y # ys))"
    by auto
  moreover from assms(2) have "structSelection R c node =
        (if cfg_fieldName c \<noteq> [] then fieldSelection c (st_node (snd (last (y # ys))))
         else Inr (Position_Line (cfg_fileSet c) (expr_Pos (st_node (snd (last (y # ys))))),
                   Position_Line (cfg_fileSet c) (expr_End (st_node (snd (last (y # ys)))))))"
    by (simp add: structSelection_eq Let_def)
  ultimately show ?thesis
    by blast
qed

theorem structSelection_last_in_range_order_witness:
  "structSelection rev cfgC fileC = Inr (3, 7)"
proof -
  have m: "mset (rev (collectStructs fileC)) = mset (collectStructs fileC)"
    by simp
  have f: "filter (\<lambda>e. st_name (snd e) = cfg_structName cfgC) (rev (collectStructs fileC))
      = [(35, MkStructType ''foo'' innerC), (21, MkStructType ''foo'' outerC)]"
    by (simp add: collectStructs_fileC cfgC_def)
  from structSelection_last_in_range_order [where R = rev and node = fileC and c = cfgC, OF m f]
  show ?thesis
    by (simp add: cfgC_def fsC_def outerC_def Line_eval IsValid_def)
qed

text \<open>
  Claim C8 as stated fails on \<^verbatim>\<open>c.go\<close>: the traversal collects the outer struct and
  then the inner one, both named \<^verbatim>\<open>foo\<close>. A range loop that visits them in this order
  selects the lines of the inner struct, one that visits them in the other order
  selects the lines of the outer struct, and Go allows both orders.
\<close>

theorem structSelection_depends_on_range_order:
  "collectStructs fileC = [(21, MkStructType ''foo'' outerC), (35, MkStructType ''foo'' innerC)]
   \<and> mset (rev (collectStructs fileC)) = mset (id (collectStructs fileC))
   \<and> structSelection id cfgC fileC = Inr (4, 6)
   \<and> structSelection rev cfgC fileC = Inr (3, 7)"
  by (simp add: collectStructs_fileC structSelection_eq cfgC_def fsC_def outerC_def innerC_def
      Line_eval IsValid_def)

subsection \<open>A run on the example\<close>

text \<open>
  The run on \<^verbatim>\<open>a.go\<close> with \<^verbatim>\<open>-struct foo -field bar -from string -to []byte\<close>: the
  span is line 4, the type of \<^verbatim>\<open>bar\<close> becomes \<^verbatim>\<open>[]byte\<close>, the anonymous field of type
  \<^verbatim>\<open>string\<close> on line 6 stays, and the printer is given the rewritten tree.
\<close>

lemma run_fileA:
  "run latin1_IsUpper id F cfgA fileA =
     (File 1 (MkIdent 9 ''p'')
        [GenDecl [TypeSpec (MkIdent 17 ''foo'')
           (StructType 21 (FieldList 28
              [Field [MkIdent 31 ''bar''] (NewIdent ''[]byte'') None,
               Field [MkIdent 43 ''qux'', MkIdent 48 ''Baz''] (Ident (MkIdent 52 ''int'')) None,
               Field [] (Ident (MkIdent 57 ''string'')) None]
              64))]],
      F fsA
        (File 1 (MkIdent 9 ''p'')
           [GenDecl [TypeSpec (MkIdent 17 ''foo'')
              (StructType 21 (FieldList 28
                 [Field [MkIdent 31 ''bar''] (NewIdent ''[]byte'') None,
                  Field [MkIdent 43 ''qux'', MkIdent 48 ''Baz''] (Ident (MkIdent 52 ''int'')) None,
                  Field [] (Ident (MkIdent 57 ''string'')) None]
                 64))]]))"
proof -
  have sel: "findSelection id cfgA fileA = Inr (4, 4)"
    by (simp add: findSelection_def structSelection_eq fieldSelection_eq collectStructs_fileA
        cfgA_def structA_def fsA_def Line_eval ident_End_def)
  have v: "validate cfgA = None"
    by (simp add: validate_def cfgA_def)
  have rw: "Inspect_file latin1_IsUpper cfgA 4 4 fileA =
      File 1 (MkIdent 9 ''p'')
        [GenDecl [TypeSpec (MkIdent 17 ''foo'')
           (StructType 21 (FieldList 28
              [Field [MkIdent 31 ''bar''] (NewIdent ''[]byte'') None,
               Field [MkIdent 43 ''qux'', MkIdent 48 ''Baz''] (Ident (MkIdent 52 ''int'')) None,
               Field [] (Ident (MkIdent 57 ''string'')) None]
              64))]]"
    by (simp add: Inspect_file_def Inspect_expr_StructType fieldMatches_def fieldNameOf_def
        example_defs Line_eval)
  have fs: "cfg_fileSet cfgA = fsA"
    by (simp add: cfgA_def)
  show ?thesis
    by (simp add: run_def v sel rewrite_def rw format_def fs)
qed

end
